theory Spec2Isabelle
  imports Complex_Main
begin

section \<open>Conventions\<close>

text \<open>
  The signal scoring and trade-plan engine of the repository is embedded function by
  function.  Python floats are modelled as real numbers: every constant of the source
  (\<open>0.7\<close>, \<open>2.35e6\<close>, ...) is the exact decimal fraction it denotes, and rounding of
  IEEE arithmetic is not modelled.  A Python dictionary with a fixed set of keys is a
  record; a key that may be absent, or may hold \<open>None\<close>, is an \<open>option\<close> field, and
  \<open>d.get(key, default)\<close> is \<open>dict_get\<close>.  Time stamps, log output and the formatted
  rationale text are left out: no function of the engine reads them back.
\<close>

definition dict_get :: "'a option \<Rightarrow> 'a \<Rightarrow> 'a" where
  "dict_get v d = (case v of None \<Rightarrow> d | Some x \<Rightarrow> x)"

section \<open>Configuration: \<open>config/settings.py\<close>\<close>

record position_limits =
  base_size :: real
  max_size :: real

record risk_profiles =
  conservative :: position_limits
  moderate :: position_limits
  aggressive :: position_limits

record reserve_thresholds =
  rt_critical_low :: real
  rt_low :: real
  rt_high :: real
  rt_critical_high :: real

record m2_thresholds =
  m2t_extreme_expansion :: real
  m2t_strong_expansion :: real
  m2t_normal_expansion :: real
  m2t_contraction :: real

record fed_rate_thresholds =
  frt_ultra_low :: real
  frt_low :: real
  frt_neutral :: real
  frt_high :: real

record settings =
  POSITION_LIMITS :: risk_profiles
  SIGNAL_THRESHOLDS :: "nat \<rightharpoonup> real"
  EXCHANGE_RESERVE_THRESHOLDS :: reserve_thresholds
  M2_THRESHOLDS :: m2_thresholds
  FED_RATE_THRESHOLDS :: fed_rate_thresholds
  RISK_PROFILE :: string

text \<open>
  \<open>Settings.__init__\<close>.  The only entry read from the environment that the engine uses
  is \<open>RISK_PROFILE\<close>, so it is the parameter here.  \<open>SIGNAL_THRESHOLDS\<close> is keyed by the
  scenario number \<open>n\<close> of its key \<open>scenario_n\<close>.
\<close>

definition Settings :: "string \<Rightarrow> settings" where
  "Settings profile =
     \<lparr> POSITION_LIMITS =
         \<lparr> conservative = \<lparr> base_size = 3 / 100, max_size = 10 / 100 \<rparr>,
           moderate = \<lparr> base_size = 5 / 100, max_size = 15 / 100 \<rparr>,
           aggressive = \<lparr> base_size = 10 / 100, max_size = 25 / 100 \<rparr> \<rparr>,
       SIGNAL_THRESHOLDS = [1 \<mapsto> 70 / 100, 2 \<mapsto> 75 / 100],
       EXCHANGE_RESERVE_THRESHOLDS =
         \<lparr> rt_critical_low = 2350000, rt_low = 2500000,
           rt_high = 2800000, rt_critical_high = 3000000 \<rparr>,
       M2_THRESHOLDS =
         \<lparr> m2t_extreme_expansion = 15 / 100, m2t_strong_expansion = 10 / 100,
           m2t_normal_expansion = 5 / 100, m2t_contraction = 0 \<rparr>,
       FED_RATE_THRESHOLDS =
         \<lparr> frt_ultra_low = 1, frt_low = 3, frt_neutral = 5, frt_high = 5 \<rparr>,
       RISK_PROFILE = profile \<rparr>"

text \<open>
  \<open>get_position_limits\<close>: \<open>risk_profile or self.RISK_PROFILE\<close> takes the configured
  profile when the argument is \<open>None\<close> or the empty string; an unknown profile falls
  back to the moderate one.
\<close>

definition get_position_limits :: "settings \<Rightarrow> string option \<Rightarrow> position_limits" where
  "get_position_limits S risk_profile =
     (let profile = (case risk_profile of
                       None \<Rightarrow> RISK_PROFILE S
                     | Some p \<Rightarrow> if p = [] then RISK_PROFILE S else p)
      in if profile = ''conservative'' then conservative (POSITION_LIMITS S)
         else if profile = ''moderate'' then moderate (POSITION_LIMITS S)
         else if profile = ''aggressive'' then aggressive (POSITION_LIMITS S)
         else moderate (POSITION_LIMITS S))"

definition get_signal_threshold :: "settings \<Rightarrow> nat \<Rightarrow> real" where
  "get_signal_threshold S scenario = dict_get (SIGNAL_THRESHOLDS S scenario) (7 / 10)"

section \<open>Results shared by both scenario models\<close>

text \<open>
  The dictionary returned by \<open>calculate_signal_strength\<close>.  The two sub-scores keep
  their dictionary keys (\<open>fed_score\<close> and \<open>reserve_score\<close>, or \<open>m2_score\<close> and
  \<open>miner_score\<close>) in \<open>sub_scores\<close>.
\<close>

record signals =
  sub_scores :: "(string \<times> real) list"
  combined_score :: real
  buy_signal :: bool
  signal_strength :: string
  threshold :: real

record tranche =
  timing :: string
  percentage :: real
  tranche_value :: real

record plan_details =
  position_value :: real
  entry_strategy :: string
  entry_plan :: "tranche list"
  hold_period :: string
  exit_conditions :: "string list"

text \<open>
  The trade plan: every plan has \<open>action\<close> and \<open>position_size\<close>; the plan without
  a buy signal has a \<open>reason\<close> and nothing else, the plan with one has the keys of
  \<open>plan_details\<close>.
\<close>

record trade_plan =
  action :: string
  position_size :: real
  reason :: "string option"
  details :: "plan_details option"

text \<open>The strength tiers, computed by the same cascade in both models.\<close>

definition strength_tier :: "real \<Rightarrow> string" where
  "strength_tier combined =
     (if combined \<ge> 8 / 10 then ''very_strong''
      else if combined \<ge> 6 / 10 then ''strong''
      else if combined \<ge> 4 / 10 then ''moderate''
      else ''weak'')"

section \<open>Data providers: what the models read from them\<close>

text \<open>
  \<open>FREDClient.detect_fed_pivot\<close> returns a dictionary whose keys other than
  \<open>pivot_detected\<close> are absent when there are fewer than ten observations or the
  request fails.  The text under \<open>reason\<close> in the first case and under \<open>error\<close> in
  the second is \<open>pi_note\<close>; nothing reads it.
\<close>

record pivot_info =
  pi_pivot_detected :: "bool option"
  pi_direction :: "string option"
  pi_magnitude :: "real option"
  pi_current_rate :: "real option"
  pi_trend_change :: "real option"
  pi_note :: "string option"

text \<open>
  \<open>FREDClient.detect_fed_pivot\<close>.  The argument is what \<open>get_fed_funds_rate\<close> gives:
  the exception it raised, or the rates in ascending date order.  \<open>df.tail(30)\<close> and
  \<open>df.head(30)\<close> are the last and first thirty rows, or all rows when there are fewer;
  there are at least ten rows where the averages are taken.
\<close>

definition detect_fed_pivot :: "string + real list \<Rightarrow> pivot_info" where
  "detect_fed_pivot fetched =
     (case fetched of
        Inl e \<Rightarrow>
          \<lparr> pi_pivot_detected = Some False, pi_direction = None, pi_magnitude = None,
            pi_current_rate = None, pi_trend_change = None, pi_note = Some e \<rparr>
      | Inr df \<Rightarrow>
          if length df < 10 then
            \<lparr> pi_pivot_detected = Some False, pi_direction = None, pi_magnitude = None,
              pi_current_rate = None, pi_trend_change = None,
              pi_note = Some ''Insufficient data'' \<rparr>
          else
            let recent_rates = drop (length df - 30) df;
                older_rates = take 30 df;
                recent_avg = sum_list recent_rates / real (length recent_rates);
                older_avg = sum_list older_rates / real (length older_rates);
                rate_change = recent_avg - older_avg
            in \<lparr> pi_pivot_detected = Some (abs rate_change > 5 / 10),
                 pi_direction = Some (if rate_change < - (25 / 100) then ''cutting''
                                      else if rate_change > 25 / 100 then ''hiking''
                                      else ''neutral''),
                 pi_magnitude = Some (abs rate_change),
                 pi_current_rate = Some (last recent_rates),
                 pi_trend_change = Some rate_change,
                 pi_note = None \<rparr>)"

section \<open>Scenario 1: \<open>models/fed_pivot.py\<close>\<close>

record fed_data =
  fed_funds_rate :: "real option"
  pivot_detected :: "bool option"
  pivot_direction :: "string option"
  pivot_magnitude :: "real option"
  trend_change :: "real option"
  fd_m2_growth_rate :: "real option"
  fd_error :: "string option"

text \<open>
  \<open>FedPivotModel.get_fed_data\<close>.  The argument is the outcome of the \<open>try\<close> block: an
  exception, or what the FRED client had to work with: the current rate, the rate
  series that \<open>detect_fed_pivot\<close> reads (or the failure of its request), and the M2
  growth rate.
\<close>

definition get_fed_data ::
  "string + (real option \<times> (string + real list) \<times> real option) \<Rightarrow> fed_data" where
  "get_fed_data fetched =
     (case fetched of
        Inl e \<Rightarrow>
          \<lparr> fed_funds_rate = None, pivot_detected = Some False, pivot_direction = None,
            pivot_magnitude = None, trend_change = None, fd_m2_growth_rate = None,
            fd_error = Some e \<rparr>
      | Inr (current_rate, rates_fetched, m2_growth) \<Rightarrow>
          let info = detect_fed_pivot rates_fetched
          in \<lparr> fed_funds_rate = current_rate,
            pivot_detected = Some (dict_get (pi_pivot_detected info) False),
            pivot_direction = Some (dict_get (pi_direction info) ''neutral''),
            pivot_magnitude = Some (dict_get (pi_magnitude info) 0),
            trend_change = Some (dict_get (pi_trend_change info) 0),
            fd_m2_growth_rate = m2_growth,
            fd_error = None \<rparr>)"

record reserve_data =
  exchange_reserves :: "real option"
  reserve_level :: "string option"
  reserve_score :: "real option"
  rd_error :: "string option"

text \<open>The bucket cascade of \<open>get_exchange_reserves\<close>: level and score of a reading.\<close>

definition classify_reserves :: "reserve_thresholds \<Rightarrow> real \<Rightarrow> string \<times> real" where
  "classify_reserves thresholds reserves =
     (if reserves < rt_critical_low thresholds then (''critical_low'', 1)
      else if reserves < rt_low thresholds then (''low'', 7 / 10)
      else if reserves > rt_critical_high thresholds then (''critical_high'', 0)
      else if reserves > rt_high thresholds then (''high'', 2 / 10)
      else (''normal'', 4 / 10))"

text \<open>
  \<open>FedPivotModel.get_exchange_reserves\<close>.  The argument is the outcome of the provider
  call: an exception, no reading, or a reading.
\<close>

definition get_exchange_reserves :: "settings \<Rightarrow> string + real option \<Rightarrow> reserve_data" where
  "get_exchange_reserves S fetched =
     (case fetched of
        Inl e \<Rightarrow>
          \<lparr> exchange_reserves = None, reserve_level = None, reserve_score = None,
            rd_error = Some e \<rparr>
      | Inr None \<Rightarrow>
          \<lparr> exchange_reserves = None, reserve_level = None, reserve_score = None,
            rd_error = Some ''No reserve data available'' \<rparr>
      | Inr (Some reserves) \<Rightarrow>
          (case classify_reserves (EXCHANGE_RESERVE_THRESHOLDS S) reserves of
             (level, score) \<Rightarrow>
               \<lparr> exchange_reserves = Some reserves, reserve_level = Some level,
                 reserve_score = Some score, rd_error = None \<rparr>))"

text \<open>The base score of \<open>calculate_fed_score\<close>, from the rate level.\<close>

definition fed_base_score :: "fed_rate_thresholds \<Rightarrow> real \<Rightarrow> real" where
  "fed_base_score thresholds current_rate =
     (if current_rate < frt_ultra_low thresholds then 8 / 10
      else if current_rate < frt_low thresholds then 5 / 10
      else if current_rate < frt_neutral thresholds then 3 / 10
      else 1 / 10)"

text \<open>The pivot adjustment of \<open>calculate_fed_score\<close>.\<close>

definition direction_multiplier :: "bool \<Rightarrow> string \<Rightarrow> real \<Rightarrow> real" where
  "direction_multiplier detected direction magnitude =
     (if detected then
        (if direction = ''cutting'' then 15 / 10 + min (5 / 10) (magnitude / 2)
         else if direction = ''hiking'' then 3 / 10
         else 1)
      else if direction = ''cutting'' then 12 / 10
      else 1)"

definition calculate_fed_score :: "settings \<Rightarrow> fed_data \<Rightarrow> real" where
  "calculate_fed_score S fd =
     (case fed_funds_rate fd of
        None \<Rightarrow> 0
      | Some current_rate \<Rightarrow>
          let base_score = fed_base_score (FED_RATE_THRESHOLDS S) current_rate;
              multiplier = direction_multiplier
                             (dict_get (pivot_detected fd) False)
                             (dict_get (pivot_direction fd) ''neutral'')
                             (dict_get (pivot_magnitude fd) 0)
          in min 1 (base_score * multiplier))"

definition fed_calculate_signal_strength :: "settings \<Rightarrow> fed_data \<Rightarrow> reserve_data \<Rightarrow> signals" where
  "fed_calculate_signal_strength S fd rd =
     (let fed_score = calculate_fed_score S fd;
          reserve_score = dict_get (reserve_score rd) 0;
          combined = fed_score * (6 / 10) + reserve_score * (4 / 10);
          thr = get_signal_threshold S 1
      in \<lparr> sub_scores = [(''fed_score'', fed_score), (''reserve_score'', reserve_score)],
           combined_score = combined,
           buy_signal = (combined \<ge> thr),
           signal_strength = strength_tier combined,
           threshold = thr \<rparr>)"

definition fed_generate_trade_plan :: "settings \<Rightarrow> signals \<Rightarrow> real \<Rightarrow> trade_plan" where
  "fed_generate_trade_plan S signal_data portfolio_value =
     (if \<not> buy_signal signal_data then
        \<lparr> action = ''no_action'', position_size = 0,
          reason = Some ''Signal threshold not met'', details = None \<rparr>
      else
        let limits = get_position_limits S None;
            excess_signal = max 0 (combined_score signal_data - threshold signal_data);
            max_excess = 1 - threshold signal_data;
            size_multiplier = (if max_excess > 0 then 1 + (excess_signal / max_excess) * 2
                               else 1);
            size = min (max_size limits) (base_size limits * size_multiplier);
            pvalue = portfolio_value * size
        in \<lparr> action = ''buy'', position_size = size, reason = None,
             details = Some
               \<lparr> position_value = pvalue,
                 entry_strategy = ''scaled_72h'',
                 entry_plan =
                   [\<lparr> timing = ''immediate'', percentage = 40 / 100,
                      tranche_value = pvalue * (40 / 100) \<rparr>,
                    \<lparr> timing = ''24_hours'', percentage = 30 / 100,
                      tranche_value = pvalue * (30 / 100) \<rparr>,
                    \<lparr> timing = ''48_hours'', percentage = 20 / 100,
                      tranche_value = pvalue * (20 / 100) \<rparr>,
                    \<lparr> timing = ''72_hours'', percentage = 10 / 100,
                      tranche_value = pvalue * (10 / 100) \<rparr>],
                 hold_period = ''minimum_90_days'',
                 exit_conditions =
                   [''NUPL > 0.70 (euphoria)'',
                    ''Exchange reserves > 2.8M BTC'',
                    ''Fed policy reversal (rate hikes)''] \<rparr> \<rparr>)"

section \<open>Scenario 2: \<open>models/m2_miner.py\<close>\<close>

record m2_data =
  m2_growth_rate :: "real option"
  m2_acceleration :: "real option"
  growth_level :: "string option"
  growth_score :: "real option"
  m2_error :: "string option"

text \<open>The bucket cascade of \<open>get_m2_data\<close>: level and score of a growth rate.\<close>

definition classify_m2_growth :: "m2_thresholds \<Rightarrow> real \<Rightarrow> string \<times> real" where
  "classify_m2_growth thresholds m2_growth =
     (if m2_growth \<ge> m2t_extreme_expansion thresholds then (''extreme_expansion'', 1)
      else if m2_growth \<ge> m2t_strong_expansion thresholds then (''strong_expansion'', 8 / 10)
      else if m2_growth \<ge> m2t_normal_expansion thresholds then (''normal_expansion'', 5 / 10)
      else if m2_growth \<ge> m2t_contraction thresholds then (''slow_growth'', 2 / 10)
      else (''contraction'', 0))"

text \<open>
  \<open>M2MinerModel.get_m2_data\<close>.  The argument is the outcome of the \<open>try\<close> block: an
  exception, or the growth rate returned by the FRED client together with the
  acceleration the method derives from the eighteen-month series (\<open>None\<close> when the
  series is too short).  The arithmetic on the data frame that yields the acceleration is
  not embedded: the value it yields is the second component.  \<open>m2_velocity\<close> is always
  \<open>None\<close> and is never read, so it is left out.
\<close>

definition get_m2_data :: "settings \<Rightarrow> string + (real option \<times> real option) \<Rightarrow> m2_data" where
  "get_m2_data S fetched =
     (case fetched of
        Inl e \<Rightarrow>
          \<lparr> m2_growth_rate = None, m2_acceleration = None, growth_level = None,
            growth_score = None, m2_error = Some e \<rparr>
      | Inr (None, acceleration) \<Rightarrow>
          \<lparr> m2_growth_rate = None, m2_acceleration = None, growth_level = None,
            growth_score = None, m2_error = Some ''M2 data unavailable'' \<rparr>
      | Inr (Some m2_growth, acceleration) \<Rightarrow>
          (case classify_m2_growth (M2_THRESHOLDS S) m2_growth of
             (level, score) \<Rightarrow>
               \<lparr> m2_growth_rate = Some m2_growth, m2_acceleration = acceleration,
                 growth_level = Some level, growth_score = Some score,
                 m2_error = None \<rparr>))"

text \<open>The dictionary of \<open>get_hash_ribbon_signal\<close>; with no key at all it is empty.\<close>

record hash_data =
  hd_signal :: "string option"
  hd_miner_capitulation :: "bool option"
  hd_ma_30 :: "real option"
  hd_ma_60 :: "real option"
  hd_trend :: "string option"

definition empty_dict :: "hash_data \<Rightarrow> bool" where
  "empty_dict h \<longleftrightarrow>
     hd_signal h = None \<and> hd_miner_capitulation h = None \<and> hd_ma_30 h = None \<and>
     hd_ma_60 h = None \<and> hd_trend h = None"

record miner_data =
  hash_ribbon_signal :: "string option"
  miner_capitulation :: "bool option"
  ribbon_score :: "real option"
  md_signal_strength :: "string option"
  ma_30 :: "real option"
  ma_60 :: "real option"
  trend :: "string option"
  md_error :: "string option"

definition hash_unavailable :: "string \<Rightarrow> miner_data" where
  "hash_unavailable e =
     \<lparr> hash_ribbon_signal = None, miner_capitulation = None, ribbon_score = None,
       md_signal_strength = None, ma_30 = None, ma_60 = None, trend = None,
       md_error = Some e \<rparr>"

text \<open>The score cascade of \<open>get_hash_ribbon_data\<close>: ribbon score and its label.\<close>

definition score_hash_ribbon :: "string \<Rightarrow> real \<times> string" where
  "score_hash_ribbon sig =
     (if sig = ''buy'' then (1, ''strong_buy'')
      else if sig = ''sell'' then (0, ''strong_sell'')
      else (4 / 10, ''neutral''))"

text \<open>
  \<open>M2MinerModel.get_hash_ribbon_data\<close>.  \<open>if not hash_data\<close> holds for \<open>None\<close> and for
  the empty dictionary.
\<close>

definition get_hash_ribbon_data :: "string + hash_data option \<Rightarrow> miner_data" where
  "get_hash_ribbon_data fetched =
     (case fetched of
        Inl e \<Rightarrow> hash_unavailable e
      | Inr None \<Rightarrow> hash_unavailable ''Hash data unavailable''
      | Inr (Some h) \<Rightarrow>
          if empty_dict h then hash_unavailable ''Hash data unavailable''
          else
            let sig = dict_get (hd_signal h) ''neutral'';
                capitulation = dict_get (hd_miner_capitulation h) False;
                capitulation_bonus = (if capitulation then 3 / 10 else 0)
            in (case score_hash_ribbon sig of
                  (score, label) \<Rightarrow>
                    \<lparr> hash_ribbon_signal = Some sig,
                      miner_capitulation = Some capitulation,
                      ribbon_score = Some (min 1 (score + capitulation_bonus)),
                      md_signal_strength = Some label,
                      ma_30 = hd_ma_30 h, ma_60 = hd_ma_60 h,
                      trend = Some (dict_get (hd_trend h) ''unknown''),
                      md_error = None \<rparr>))"

text \<open>
  \<open>M2MinerModel.calculate_m2_score\<close>.  An absent \<open>m2_acceleration\<close> key defaults to \<open>0\<close>
  and a key holding \<open>None\<close> skips the adjustment; both give the bonus \<open>0\<close>.
\<close>

definition calculate_m2_score :: "m2_data \<Rightarrow> real" where
  "calculate_m2_score m2 =
     (case m2_growth_rate m2 of
        None \<Rightarrow> 0
      | Some growth_rate \<Rightarrow>
          let base_score = dict_get (growth_score m2) 0;
              accel_bonus = (case m2_acceleration m2 of
                               None \<Rightarrow> 0
                             | Some acceleration \<Rightarrow>
                                 min (2 / 10) (max (- (2 / 10)) (acceleration * 5)));
              velocity_adjustment = 0
          in min 1 (max 0 (base_score + accel_bonus + velocity_adjustment)))"

definition m2_calculate_signal_strength :: "settings \<Rightarrow> m2_data \<Rightarrow> miner_data \<Rightarrow> signals" where
  "m2_calculate_signal_strength S m2 md =
     (let m2_score = calculate_m2_score m2;
          miner_score = dict_get (ribbon_score md) 0;
          combined = m2_score * (5 / 10) + miner_score * (5 / 10);
          thr = get_signal_threshold S 2;
          override = (growth_level m2 = Some ''extreme_expansion'' \<and> combined \<ge> 6 / 10)
      in \<lparr> sub_scores = [(''m2_score'', m2_score), (''miner_score'', miner_score)],
           combined_score = combined,
           buy_signal = (if override then True else combined \<ge> thr),
           signal_strength = (if override then ''strong_m2_override''
                              else strength_tier combined),
           threshold = thr \<rparr>)"

definition m2_generate_trade_plan :: "settings \<Rightarrow> signals \<Rightarrow> real \<Rightarrow> trade_plan" where
  "m2_generate_trade_plan S signal_data portfolio_value =
     (if \<not> buy_signal signal_data then
        \<lparr> action = ''no_action'', position_size = 0,
          reason = Some ''Signal threshold not met'', details = None \<rparr>
      else
        let limits = get_position_limits S None;
            excess_signal = max 0 (combined_score signal_data - threshold signal_data);
            max_excess = 1 - threshold signal_data;
            size_multiplier = (if max_excess > 0
                               then 12 / 10 + (excess_signal / max_excess) * (25 / 10)
                               else 12 / 10);
            size = min (max_size limits) (base_size limits * size_multiplier);
            pvalue = portfolio_value * size
        in \<lparr> action = ''accumulate'', position_size = size, reason = None,
             details = Some
               \<lparr> position_value = pvalue,
                 entry_strategy = ''accumulate_30_days'',
                 entry_plan =
                   [\<lparr> timing = ''week_1'', percentage = 30 / 100,
                      tranche_value = pvalue * (30 / 100) \<rparr>,
                    \<lparr> timing = ''week_2'', percentage = 25 / 100,
                      tranche_value = pvalue * (25 / 100) \<rparr>,
                    \<lparr> timing = ''week_3'', percentage = 25 / 100,
                      tranche_value = pvalue * (25 / 100) \<rparr>,
                    \<lparr> timing = ''week_4'', percentage = 20 / 100,
                      tranche_value = pvalue * (20 / 100) \<rparr>],
                 hold_period = ''minimum_180_days'',
                 exit_conditions =
                   [''M2 growth deceleration below 5% YoY'',
                    ''Hash ribbon sell signal'',
                    ''NUPL > 0.75 (euphoria)'',
                    ''Fed aggressive tightening cycle''] \<rparr> \<rparr>)"

section \<open>Provider health, as the models reduce it\<close>

text \<open>
  The status computed at the end of \<open>FedPivotModel.health_check\<close> and of
  \<open>M2MinerModel.health_check\<close> (the same three lines in both) from the statuses of the
  providers, in the order of the \<open>providers\<close> dictionary.
\<close>

definition reduce_statuses :: "string list \<Rightarrow> string" where
  "reduce_statuses statuses =
     (if list_all (\<lambda>status. status = ''healthy'') statuses then ''healthy''
      else if list_ex (\<lambda>status. status = ''error'') statuses then ''error''
      else ''degraded'')"

record model_health =
  mh_scenario :: nat
  providers :: "(string \<times> string) list"
  status :: string

text \<open>
  The arguments are the \<open>status\<close> entries of the health dictionaries of the FRED client,
  the price provider and the on-chain provider.
\<close>

definition model_health_check :: "nat \<Rightarrow> string \<Rightarrow> string \<Rightarrow> string \<Rightarrow> model_health" where
  "model_health_check n fred crypto onchain =
     (let provs = [(''fred'', fred), (''crypto'', crypto), (''onchain'', onchain)]
      in \<lparr> mh_scenario = n, providers = provs,
           status = reduce_statuses (map snd provs) \<rparr>)"

definition fed_health_check :: "string \<Rightarrow> string \<Rightarrow> string \<Rightarrow> model_health" where
  "fed_health_check = model_health_check 1"

definition m2_health_check :: "string \<Rightarrow> string \<Rightarrow> string \<Rightarrow> model_health" where
  "m2_health_check = model_health_check 2"

section \<open>The orchestrator: \<open>core.py\<close>\<close>

datatype scenario_data =
  FedData fed_data reserve_data
| M2Data m2_data miner_data

record analysis =
  scenario :: nat
  scenario_name :: string
  data :: scenario_data
  signals_of :: signals
  plan_of :: trade_plan
  portfolio_value :: "real option"

text \<open>
  An entry of \<open>get_all_signals\<close>: the dictionary of a completed analysis, or the
  dictionary with an \<open>error\<close> key and the two-entry \<open>signals\<close> dictionary.  The
  test \<open>'error' not in result\<close> is \<open>has_error\<close>.
\<close>

datatype result =
  Completed analysis
| Failed string bool real

fun has_error :: "result \<Rightarrow> bool" where
  "has_error (Completed a) = False"
| "has_error (Failed e b c) = True"

fun result_combined_score :: "result \<Rightarrow> real" where
  "result_combined_score (Completed a) = combined_score (signals_of a)"
| "result_combined_score (Failed e b c) = c"

fun result_buy_signal :: "result \<Rightarrow> bool" where
  "result_buy_signal (Completed a) = buy_signal (signals_of a)"
| "result_buy_signal (Failed e b c) = b"

text \<open>\<open>FedPivotModel.analyze\<close> and \<open>M2MinerModel.analyze\<close>, on what the providers returned.\<close>

definition fed_analyze ::
  "settings \<Rightarrow> string + (real option \<times> (string + real list) \<times> real option)
     \<Rightarrow> string + real option
     \<Rightarrow> real \<Rightarrow> analysis" where
  "fed_analyze S fed_fetched reserves_fetched pv =
     (let fd = get_fed_data fed_fetched;
          rd = get_exchange_reserves S reserves_fetched;
          sig = fed_calculate_signal_strength S fd rd
      in \<lparr> scenario = 1, scenario_name = ''Fed Pivot + Low Exchange Reserves'',
           data = FedData fd rd, signals_of = sig,
           plan_of = fed_generate_trade_plan S sig pv, portfolio_value = None \<rparr>)"

definition m2_analyze ::
  "settings \<Rightarrow> string + (real option \<times> real option) \<Rightarrow> string + hash_data option
     \<Rightarrow> real \<Rightarrow> analysis" where
  "m2_analyze S m2_fetched hash_fetched pv =
     (let m2 = get_m2_data S m2_fetched;
          md = get_hash_ribbon_data hash_fetched;
          sig = m2_calculate_signal_strength S m2 md
      in \<lparr> scenario = 2, scenario_name = ''M2 Expansion + Miner Capitulation'',
           data = M2Data m2 md, signals_of = sig,
           plan_of = m2_generate_trade_plan S sig pv, portfolio_value = None \<rparr>)"

text \<open>
  A registered scenario model, seen from the orchestrator: its \<open>analyze\<close> method on a
  portfolio value either raises (\<open>Inl\<close> with the text of the exception) or returns.
  The \<open>scenarios\<close> dictionary is an association list in insertion order.
\<close>

type_synonym scenario_model = "real \<Rightarrow> string + analysis"

definition run_analysis ::
  "(nat \<times> scenario_model) list \<Rightarrow> nat \<Rightarrow> real \<Rightarrow> string + analysis" where
  "run_analysis scenarios n pv =
     (case map_of scenarios n of
        None \<Rightarrow> Inl ''Unknown scenario''
      | Some model \<Rightarrow>
          (case model pv of
             Inl e \<Rightarrow> Inl e
           | Inr r \<Rightarrow> Inr (r\<lparr> scenario := n, portfolio_value := Some pv \<rparr>)))"

text \<open>
  \<open>get_all_signals\<close>: the result dictionary, in insertion order; the key
  \<open>scenario_n\<close> is the scenario number \<open>n\<close>.
\<close>

definition signals_entry :: "(nat \<times> scenario_model) list \<Rightarrow> real \<Rightarrow> nat \<Rightarrow> nat \<times> result" where
  "signals_entry scenarios pv n =
     (case run_analysis scenarios n pv of
        Inr r \<Rightarrow> (n, Completed r)
      | Inl e \<Rightarrow> (n, Failed e False 0))"

definition get_all_signals :: "(nat \<times> scenario_model) list \<Rightarrow> real \<Rightarrow> (nat \<times> result) list" where
  "get_all_signals scenarios pv = map (signals_entry scenarios pv) (map fst scenarios)"

text \<open>The loop of \<open>get_strongest_signal\<close>, with its two variables.\<close>

fun strongest_loop :: "result option \<Rightarrow> real \<Rightarrow> (nat \<times> result) list \<Rightarrow> result option" where
  "strongest_loop strongest max_score [] = strongest"
| "strongest_loop strongest max_score ((name, r) # rest) =
     (if \<not> has_error r \<and> result_combined_score r > max_score
      then strongest_loop (Some r) (result_combined_score r) rest
      else strongest_loop strongest max_score rest)"

definition no_valid_signals :: result where
  "no_valid_signals = Failed ''No valid signals available'' False 0"

definition strongest_of :: "(nat \<times> result) list \<Rightarrow> result" where
  "strongest_of all_signals =
     (case strongest_loop None 0 all_signals of
        None \<Rightarrow> no_valid_signals
      | Some r \<Rightarrow> r)"

definition get_strongest_signal :: "(nat \<times> scenario_model) list \<Rightarrow> real \<Rightarrow> result" where
  "get_strongest_signal scenarios pv = strongest_of (get_all_signals scenarios pv)"

text \<open>
  \<open>BitcoinMacroModel.health_check\<close>.  Each scenario's \<open>health_check\<close> either raises
  (\<open>Inl\<close>) or returns its dictionary; the component recorded for a scenario that raised
  has status \<open>error\<close>.
\<close>

datatype component =
  Reported model_health
| Raised string

fun component_status :: "component \<Rightarrow> string" where
  "component_status (Reported h) = status h"
| "component_status (Raised e) = ''error''"

record health =
  overall_status :: string
  components :: "(nat \<times> component) list"

fun health_loop :: "health \<Rightarrow> (nat \<times> (string + model_health)) list \<Rightarrow> health" where
  "health_loop h [] = h"
| "health_loop h ((n, Inr model_health) # rest) =
     health_loop
       \<lparr> overall_status = (if status model_health \<noteq> ''healthy'' then ''degraded''
                           else overall_status h),
         components = components h @ [(n, Reported model_health)] \<rparr> rest"
| "health_loop h ((n, Inl e) # rest) =
     health_loop
       \<lparr> overall_status = ''error'',
         components = components h @ [(n, Raised e)] \<rparr> rest"

definition health_check :: "(nat \<times> (string + model_health)) list \<Rightarrow> health" where
  "health_check checks = health_loop \<lparr> overall_status = ''healthy'', components = [] \<rparr> checks"

section \<open>Inputs used in the worked instances\<close>

text \<open>
  A fed-policy dictionary with a detected easing pivot: rate \<open>0.5\<close>, direction
  \<open>cutting\<close>, magnitude \<open>1.0\<close>.
\<close>

definition easing_fed_data :: fed_data where
  "easing_fed_data =
     \<lparr> fed_funds_rate = Some (1 / 2), pivot_detected = Some True,
       pivot_direction = Some ''cutting'', pivot_magnitude = Some 1,
       trend_change = Some (- 1), fd_m2_growth_rate = None, fd_error = None \<rparr>"

text \<open>A money-supply dictionary in the topmost growth tier, with a given acceleration.\<close>

definition extreme_m2_data :: "real option \<Rightarrow> m2_data" where
  "extreme_m2_data acceleration =
     \<lparr> m2_growth_rate = Some (16 / 100), m2_acceleration = acceleration,
       growth_level = Some ''extreme_expansion'', growth_score = Some 1, m2_error = None \<rparr>"

text \<open>A miner dictionary with a given ribbon score.\<close>

definition miner_with_score :: "real \<Rightarrow> miner_data" where
  "miner_with_score s =
     \<lparr> hash_ribbon_signal = Some ''sell'', miner_capitulation = Some True,
       ribbon_score = Some s, md_signal_strength = Some ''strong_sell'',
       ma_30 = None, ma_60 = None, trend = Some ''unknown'', md_error = None \<rparr>"

text \<open>A scenario model whose \<open>analyze\<close> raises.\<close>

definition failing_model :: "string \<Rightarrow> scenario_model" where
  "failing_model e pv = Inl e"

text \<open>
  Both scenario models when every provider returns nothing: no rate, no rate series, no
  reserves, no growth rate, no hash data.  Each model handles that itself and returns
  an analysis.
\<close>

definition outage_scenarios :: "(nat \<times> scenario_model) list" where
  "outage_scenarios =
     [(1, Inr \<circ> fed_analyze (Settings ''moderate'') (Inr (None, Inl ''timeout'', None)) (Inr None)),
      (2, Inr \<circ> m2_analyze (Settings ''moderate'') (Inr (None, None)) (Inr None))]"

text \<open>
  Both scenario models on what the mock on-chain provider returns (reserves of
  \<open>2.35e6\<close>, a neutral hash ribbon without capitulation) when FRED has no data.
\<close>

definition mock_hash_data :: hash_data where
  "mock_hash_data =
     \<lparr> hd_signal = Some ''neutral'', hd_miner_capitulation = Some False,
       hd_ma_30 = Some 450000000000000000000, hd_ma_60 = Some 440000000000000000000,
       hd_trend = Some ''recovering'' \<rparr>"

definition mock_scenarios :: "(nat \<times> scenario_model) list" where
  "mock_scenarios =
     [(1, Inr \<circ> fed_analyze (Settings ''moderate'') (Inr (None, Inl ''timeout'', None))
            (Inr (Some 2350000))),
      (2, Inr \<circ> m2_analyze (Settings ''moderate'') (Inr (None, None)) (Inr (Some mock_hash_data)))]"

text \<open>The registry when the first model raises and the second runs on the mock data.\<close>

definition half_failing_scenarios :: "(nat \<times> scenario_model) list" where
  "half_failing_scenarios =
     [(1, failing_model ''FRED unavailable''),
      (2, Inr \<circ> m2_analyze (Settings ''moderate'') (Inr (None, None)) (Inr (Some mock_hash_data)))]"

section \<open>Facts about the configuration\<close>

lemma settings_simps:
  "EXCHANGE_RESERVE_THRESHOLDS (Settings p) =
     \<lparr> rt_critical_low = 2350000, rt_low = 2500000, rt_high = 2800000,
       rt_critical_high = 3000000 \<rparr>"
  "M2_THRESHOLDS (Settings p) =
     \<lparr> m2t_extreme_expansion = 15 / 100, m2t_strong_expansion = 10 / 100,
       m2t_normal_expansion = 5 / 100, m2t_contraction = 0 \<rparr>"
  "FED_RATE_THRESHOLDS (Settings p) =
     \<lparr> frt_ultra_low = 1, frt_low = 3, frt_neutral = 5, frt_high = 5 \<rparr>"
  "get_signal_threshold (Settings p) 1 = 7 / 10"
  "get_signal_threshold (Settings p) (Suc 0) = 7 / 10"
  "get_signal_threshold (Settings p) 2 = 75 / 100"
  by (simp_all add: Settings_def get_signal_threshold_def dict_get_def)

lemma moderate_limits:
  "get_position_limits (Settings ''moderate'') None = \<lparr> base_size = 5 / 100, max_size = 15 / 100 \<rparr>"
  by (simp add: get_position_limits_def Settings_def)

section \<open>The bucket scans\<close>

lemma classify_reserves_default:
  "classify_reserves (EXCHANGE_RESERVE_THRESHOLDS (Settings p)) r =
     (if r < 2350000 then (''critical_low'', 1)
      else if r < 2500000 then (''low'', 7 / 10)
      else if r > 3000000 then (''critical_high'', 0)
      else if r > 2800000 then (''high'', 2 / 10)
      else (''normal'', 4 / 10))"
  by (simp add: classify_reserves_def settings_simps)

lemma reserve_buckets:
  "(classify_reserves (EXCHANGE_RESERVE_THRESHOLDS (Settings p)) r = (''critical_low'', 1)
      \<longleftrightarrow> r < 2350000) \<and>
   (classify_reserves (EXCHANGE_RESERVE_THRESHOLDS (Settings p)) r = (''low'', 7 / 10)
      \<longleftrightarrow> 2350000 \<le> r \<and> r < 2500000) \<and>
   (classify_reserves (EXCHANGE_RESERVE_THRESHOLDS (Settings p)) r = (''normal'', 4 / 10)
      \<longleftrightarrow> 2500000 \<le> r \<and> r \<le> 2800000) \<and>
   (classify_reserves (EXCHANGE_RESERVE_THRESHOLDS (Settings p)) r = (''high'', 2 / 10)
      \<longleftrightarrow> 2800000 < r \<and> r \<le> 3000000) \<and>
   (classify_reserves (EXCHANGE_RESERVE_THRESHOLDS (Settings p)) r = (''critical_high'', 0)
      \<longleftrightarrow> 3000000 < r)"
  unfolding classify_reserves_default by auto

lemma fed_base_score_default:
  "fed_base_score (FED_RATE_THRESHOLDS (Settings p)) c =
     (if c < 1 then 8 / 10 else if c < 3 then 5 / 10 else if c < 5 then 3 / 10 else 1 / 10)"
  by (simp add: fed_base_score_def settings_simps)

lemma fed_rate_buckets:
  "(fed_base_score (FED_RATE_THRESHOLDS (Settings p)) c = 8 / 10 \<longleftrightarrow> c < 1) \<and>
   (fed_base_score (FED_RATE_THRESHOLDS (Settings p)) c = 5 / 10 \<longleftrightarrow> 1 \<le> c \<and> c < 3) \<and>
   (fed_base_score (FED_RATE_THRESHOLDS (Settings p)) c = 3 / 10 \<longleftrightarrow> 3 \<le> c \<and> c < 5) \<and>
   (fed_base_score (FED_RATE_THRESHOLDS (Settings p)) c = 1 / 10 \<longleftrightarrow> 5 \<le> c)"
  unfolding fed_base_score_default by auto

lemma classify_m2_growth_default:
  "classify_m2_growth (M2_THRESHOLDS (Settings p)) g =
     (if g \<ge> 15 / 100 then (''extreme_expansion'', 1)
      else if g \<ge> 10 / 100 then (''strong_expansion'', 8 / 10)
      else if g \<ge> 5 / 100 then (''normal_expansion'', 5 / 10)
      else if g \<ge> 0 then (''slow_growth'', 2 / 10)
      else (''contraction'', 0))"
  by (simp add: classify_m2_growth_def settings_simps)

lemma m2_growth_buckets:
  "(classify_m2_growth (M2_THRESHOLDS (Settings p)) g = (''extreme_expansion'', 1)
      \<longleftrightarrow> 15 / 100 \<le> g) \<and>
   (classify_m2_growth (M2_THRESHOLDS (Settings p)) g = (''strong_expansion'', 8 / 10)
      \<longleftrightarrow> 10 / 100 \<le> g \<and> g < 15 / 100) \<and>
   (classify_m2_growth (M2_THRESHOLDS (Settings p)) g = (''normal_expansion'', 5 / 10)
      \<longleftrightarrow> 5 / 100 \<le> g \<and> g < 10 / 100) \<and>
   (classify_m2_growth (M2_THRESHOLDS (Settings p)) g = (''slow_growth'', 2 / 10)
      \<longleftrightarrow> 0 \<le> g \<and> g < 5 / 100) \<and>
   (classify_m2_growth (M2_THRESHOLDS (Settings p)) g = (''contraction'', 0)
      \<longleftrightarrow> g < 0)"
  unfolding classify_m2_growth_default by auto

text \<open>
  Claim C3, as stated: every bucket scan, the M2-growth classification included,
  compares strictly, so a value equal to a boundary falls into the less extreme bucket.
  The M2-growth scan compares with \<open>\<ge>\<close>: a growth rate of exactly \<open>0.15\<close>, which is not
  above the boundary \<open>0.15\<close>, is classified into the topmost tier all the same.
\<close>

theorem m2_boundary_inclusive_counterexample:
  "classify_m2_growth (M2_THRESHOLDS (Settings ''moderate'')) (15 / 100) =
     (''extreme_expansion'', 1) \<and>
   \<not> (15 / 100 > m2t_extreme_expansion (M2_THRESHOLDS (Settings ''moderate'')))"
  by (simp add: classify_m2_growth_def settings_simps)

text \<open>
  Claim C3, amended: with the configured thresholds, the exchange-reserve scan and the
  Fed-rate scan compare strictly (\<open><\<close> on the low side, \<open>>\<close> on the high side), so a
  value equal to a boundary falls into the less extreme bucket; the reserve scores are
  \<open>1.0\<close> below \<open>2.35M\<close>, \<open>0.7\<close> below \<open>2.5M\<close>, \<open>0.0\<close> above \<open>3.0M\<close>, \<open>0.2\<close> above \<open>2.8M\<close>
  and \<open>0.4\<close> otherwise.  The M2-growth scan compares with \<open>\<ge>\<close>, so a growth rate equal
  to a boundary falls into the more extreme (higher) bucket.
\<close>

theorem bucket_boundaries:
  "((classify_reserves (EXCHANGE_RESERVE_THRESHOLDS (Settings p)) r = (''critical_low'', 1)
       \<longleftrightarrow> r < 2350000) \<and>
    (classify_reserves (EXCHANGE_RESERVE_THRESHOLDS (Settings p)) r = (''low'', 7 / 10)
       \<longleftrightarrow> 2350000 \<le> r \<and> r < 2500000) \<and>
    (classify_reserves (EXCHANGE_RESERVE_THRESHOLDS (Settings p)) r = (''normal'', 4 / 10)
       \<longleftrightarrow> 2500000 \<le> r \<and> r \<le> 2800000) \<and>
    (classify_reserves (EXCHANGE_RESERVE_THRESHOLDS (Settings p)) r = (''high'', 2 / 10)
       \<longleftrightarrow> 2800000 < r \<and> r \<le> 3000000) \<and>
    (classify_reserves (EXCHANGE_RESERVE_THRESHOLDS (Settings p)) r = (''critical_high'', 0)
       \<longleftrightarrow> 3000000 < r)) \<and>
   ((fed_base_score (FED_RATE_THRESHOLDS (Settings p)) c = 8 / 10 \<longleftrightarrow> c < 1) \<and>
    (fed_base_score (FED_RATE_THRESHOLDS (Settings p)) c = 5 / 10 \<longleftrightarrow> 1 \<le> c \<and> c < 3) \<and>
    (fed_base_score (FED_RATE_THRESHOLDS (Settings p)) c = 3 / 10 \<longleftrightarrow> 3 \<le> c \<and> c < 5) \<and>
    (fed_base_score (FED_RATE_THRESHOLDS (Settings p)) c = 1 / 10 \<longleftrightarrow> 5 \<le> c)) \<and>
   ((classify_m2_growth (M2_THRESHOLDS (Settings p)) g = (''extreme_expansion'', 1)
       \<longleftrightarrow> 15 / 100 \<le> g) \<and>
    (classify_m2_growth (M2_THRESHOLDS (Settings p)) g = (''strong_expansion'', 8 / 10)
       \<longleftrightarrow> 10 / 100 \<le> g \<and> g < 15 / 100) \<and>
    (classify_m2_growth (M2_THRESHOLDS (Settings p)) g = (''normal_expansion'', 5 / 10)
       \<longleftrightarrow> 5 / 100 \<le> g \<and> g < 10 / 100) \<and>
    (classify_m2_growth (M2_THRESHOLDS (Settings p)) g = (''slow_growth'', 2 / 10)
       \<longleftrightarrow> 0 \<le> g \<and> g < 5 / 100) \<and>
    (classify_m2_growth (M2_THRESHOLDS (Settings p)) g = (''contraction'', 0)
       \<longleftrightarrow> g < 0))"
  using reserve_buckets [of p r] fed_rate_buckets [of p c] m2_growth_buckets [of p g]
  by blast

text \<open>
  The boundaries themselves: reserves of exactly \<open>2.35M\<close> are \<open>low\<close>, not
  \<open>critical_low\<close>; a rate of exactly \<open>1.0\<close> scores \<open>0.5\<close>; growth of exactly \<open>0.10\<close>
  is \<open>strong_expansion\<close>.
\<close>

theorem bucket_boundaries_witness:
  "classify_reserves (EXCHANGE_RESERVE_THRESHOLDS (Settings ''moderate'')) 2350000 =
     (''low'', 7 / 10) \<and>
   fed_base_score (FED_RATE_THRESHOLDS (Settings ''moderate'')) 1 = 5 / 10 \<and>
   classify_m2_growth (M2_THRESHOLDS (Settings ''moderate'')) (10 / 100) =
     (''strong_expansion'', 8 / 10)"
  using bucket_boundaries [of "''moderate''" 2350000 1 "10 / 100"]
  by simp

section \<open>Score ranges\<close>

lemma fed_base_score_range: "0 < fed_base_score T c \<and> fed_base_score T c \<le> 1"
  by (simp add: fed_base_score_def)

lemma direction_multiplier_pos: "0 \<le> m \<Longrightarrow> 0 < direction_multiplier d dir m"
  by (simp add: direction_multiplier_def min_def)

lemma calculate_fed_score_range:
  assumes "0 \<le> dict_get (pivot_magnitude fd) 0"
  shows "0 \<le> calculate_fed_score S fd \<and> calculate_fed_score S fd \<le> 1"
proof (cases "fed_funds_rate fd")
  case None
  then show ?thesis by (simp add: calculate_fed_score_def)
next
  case (Some c)
  have "0 \<le> fed_base_score (FED_RATE_THRESHOLDS S) c *
          direction_multiplier (dict_get (pivot_detected fd) False)
            (dict_get (pivot_direction fd) ''neutral'') (dict_get (pivot_magnitude fd) 0)"
    using fed_base_score_range [of "FED_RATE_THRESHOLDS S" c]
      direction_multiplier_pos [OF assms] by (simp add: less_imp_le)
  with Some show ?thesis by (simp add: calculate_fed_score_def Let_def)
qed

lemma get_fed_data_magnitude: "0 \<le> dict_get (pivot_magnitude (get_fed_data ff)) 0"
  by (auto simp: get_fed_data_def detect_fed_pivot_def dict_get_def Let_def
      split: sum.splits prod.splits)

lemma reserve_score_range:
  "0 \<le> dict_get (reserve_score (get_exchange_reserves S rf)) 0 \<and>
   dict_get (reserve_score (get_exchange_reserves S rf)) 0 \<le> 1"
  by (auto simp: get_exchange_reserves_def classify_reserves_def dict_get_def
      split: sum.splits option.splits)

lemma calculate_m2_score_range: "0 \<le> calculate_m2_score m2 \<and> calculate_m2_score m2 \<le> 1"
  by (simp add: calculate_m2_score_def Let_def split: option.splits)

lemma ribbon_score_range:
  "0 \<le> dict_get (ribbon_score (get_hash_ribbon_data hf)) 0 \<and>
   dict_get (ribbon_score (get_hash_ribbon_data hf)) 0 \<le> 1"
  by (auto simp: get_hash_ribbon_data_def hash_unavailable_def score_hash_ribbon_def
      dict_get_def Let_def split: sum.splits option.splits)

lemma weighted_range:
  fixes a b :: real
  assumes "0 \<le> a \<and> a \<le> 1" "0 \<le> b \<and> b \<le> 1" "0 \<le> w" "w \<le> 1"
  shows "0 \<le> a * w + b * (1 - w) \<and> a * w + b * (1 - w) \<le> 1"
proof -
  define x where "x = a * w"
  define y where "y = b * (1 - w)"
  have "x \<le> 1 * w" unfolding x_def
    by (rule mult_right_mono) (use assms in auto)
  moreover have "y \<le> 1 * (1 - w)" unfolding y_def
    by (rule mult_right_mono) (use assms in auto)
  moreover have "0 \<le> x" "0 \<le> y" using assms by (auto simp: x_def y_def)
  ultimately have "0 \<le> x + y \<and> x + y \<le> 1" by auto
  then show ?thesis by (simp add: x_def y_def)
qed

lemma fed_combined:
  "combined_score (fed_calculate_signal_strength S fd rd) =
     calculate_fed_score S fd * (6 / 10) + dict_get (reserve_score rd) 0 * (4 / 10)"
  by (simp add: fed_calculate_signal_strength_def Let_def)

lemma m2_combined:
  "combined_score (m2_calculate_signal_strength S m2 md) =
     calculate_m2_score m2 * (5 / 10) + dict_get (ribbon_score md) 0 * (5 / 10)"
  by (simp add: m2_calculate_signal_strength_def Let_def)

text \<open>
  Claim C4: for every indicator snapshot, that is for everything the providers can
  return, missing readings and failed requests included, the Fed score, the reserve
  score, the M2 score and the miner ribbon score lie in \<open>[0,1]\<close>, and so does the
  combined score of each scenario.  The two scorers are in range on dictionaries built
  by hand as well: \<open>calculate_m2_score\<close> on any dictionary, \<open>calculate_fed_score\<close> on
  any dictionary whose pivot magnitude is not negative (\<open>get_fed_data\<close> stores an
  absolute value or the default \<open>0\<close>).
\<close>

theorem scores_in_unit_interval:
  "(0 \<le> dict_get (pivot_magnitude fd) 0 \<longrightarrow>
      0 \<le> calculate_fed_score S fd \<and> calculate_fed_score S fd \<le> 1) \<and>
   (0 \<le> calculate_m2_score m2 \<and> calculate_m2_score m2 \<le> 1) \<and>
   (0 \<le> calculate_fed_score S (get_fed_data ff) \<and>
      calculate_fed_score S (get_fed_data ff) \<le> 1) \<and>
   (0 \<le> dict_get (reserve_score (get_exchange_reserves S rf)) 0 \<and>
      dict_get (reserve_score (get_exchange_reserves S rf)) 0 \<le> 1) \<and>
   (0 \<le> calculate_m2_score (get_m2_data S mf) \<and>
      calculate_m2_score (get_m2_data S mf) \<le> 1) \<and>
   (0 \<le> dict_get (ribbon_score (get_hash_ribbon_data hf)) 0 \<and>
      dict_get (ribbon_score (get_hash_ribbon_data hf)) 0 \<le> 1) \<and>
   (0 \<le> combined_score (signals_of (fed_analyze S ff rf pv)) \<and>
      combined_score (signals_of (fed_analyze S ff rf pv)) \<le> 1) \<and>
   (0 \<le> combined_score (signals_of (m2_analyze S mf hf pv)) \<and>
      combined_score (signals_of (m2_analyze S mf hf pv)) \<le> 1)"
proof -
  have fed: "0 \<le> calculate_fed_score S (get_fed_data ff) \<and>
      calculate_fed_score S (get_fed_data ff) \<le> 1"
    by (rule calculate_fed_score_range [OF get_fed_data_magnitude])
  have res: "0 \<le> dict_get (reserve_score (get_exchange_reserves S rf)) 0 \<and>
      dict_get (reserve_score (get_exchange_reserves S rf)) 0 \<le> 1"
    by (rule reserve_score_range)
  have m2: "0 \<le> calculate_m2_score (get_m2_data S mf) \<and>
      calculate_m2_score (get_m2_data S mf) \<le> 1"
    by (rule calculate_m2_score_range)
  have rib: "0 \<le> dict_get (ribbon_score (get_hash_ribbon_data hf)) 0 \<and>
      dict_get (ribbon_score (get_hash_ribbon_data hf)) 0 \<le> 1"
    by (rule ribbon_score_range)
  have ca: "0 \<le> combined_score (signals_of (fed_analyze S ff rf pv)) \<and>
      combined_score (signals_of (fed_analyze S ff rf pv)) \<le> 1"
    using weighted_range [OF fed res, of "6 / 10"]
    by (simp add: fed_analyze_def Let_def fed_combined)
  have cb: "0 \<le> combined_score (signals_of (m2_analyze S mf hf pv)) \<and>
      combined_score (signals_of (m2_analyze S mf hf pv)) \<le> 1"
    using weighted_range [OF m2 rib, of "5 / 10"]
    by (simp add: m2_analyze_def Let_def m2_combined)
  from fed res m2 rib ca cb calculate_fed_score_range [of fd S]
    calculate_m2_score_range [of m2]
  show ?thesis by blast
qed

text \<open>
  An instance with every reading missing on the Fed side and present elsewhere: the
  scores are \<open>0\<close>, \<open>1\<close>, \<open>1\<close> and \<open>0.4\<close>.  The hand-built dictionary is the easing
  pivot of magnitude \<open>1.0\<close>, whose score is clamped to \<open>1\<close>.
\<close>

theorem scores_in_unit_interval_witness:
  "0 \<le> dict_get (pivot_magnitude easing_fed_data) 0 \<and>
   0 \<le> calculate_fed_score (Settings ''moderate'') easing_fed_data \<and>
   calculate_fed_score (Settings ''moderate'') easing_fed_data \<le> 1 \<and>
   calculate_fed_score (Settings ''moderate'') (get_fed_data (Inl ''timeout'')) = 0 \<and>
   dict_get (reserve_score (get_exchange_reserves (Settings ''moderate'')
     (Inr (Some 2300000)))) 0 = 1 \<and>
   calculate_m2_score (get_m2_data (Settings ''moderate'')
     (Inr (Some (16 / 100), Some (1 / 100)))) = 1 \<and>
   dict_get (ribbon_score (get_hash_ribbon_data (Inr (Some mock_hash_data)))) 0 = 4 / 10 \<and>
   0 \<le> combined_score (signals_of (fed_analyze (Settings ''moderate'') (Inl ''timeout'')
     (Inr (Some 2300000)) 100000)) \<and>
   combined_score (signals_of (fed_analyze (Settings ''moderate'') (Inl ''timeout'')
     (Inr (Some 2300000)) 100000)) \<le> 1 \<and>
   0 \<le> combined_score (signals_of (m2_analyze (Settings ''moderate'')
     (Inr (Some (16 / 100), Some (1 / 100))) (Inr (Some mock_hash_data)) 100000)) \<and>
   combined_score (signals_of (m2_analyze (Settings ''moderate'')
     (Inr (Some (16 / 100), Some (1 / 100))) (Inr (Some mock_hash_data)) 100000)) \<le> 1"
proof -
  have a: "calculate_fed_score (Settings ''moderate'') (get_fed_data (Inl ''timeout'')) = 0"
    by (simp add: calculate_fed_score_def get_fed_data_def)
  have b: "dict_get (reserve_score (get_exchange_reserves (Settings ''moderate'')
     (Inr (Some 2300000)))) 0 = 1"
    by (simp add: get_exchange_reserves_def classify_reserves_def settings_simps dict_get_def)
  have c: "calculate_m2_score (get_m2_data (Settings ''moderate'')
     (Inr (Some (16 / 100), Some (1 / 100)))) = 1"
    by (simp add: calculate_m2_score_def get_m2_data_def classify_m2_growth_def
        settings_simps dict_get_def Let_def)
  have d: "dict_get (ribbon_score (get_hash_ribbon_data (Inr (Some mock_hash_data)))) 0 = 4 / 10"
    by (simp add: get_hash_ribbon_data_def mock_hash_data_def empty_dict_def
        score_hash_ribbon_def dict_get_def Let_def)
  have e: "0 \<le> dict_get (pivot_magnitude easing_fed_data) 0"
    by (simp add: easing_fed_data_def dict_get_def)
  show ?thesis
    using scores_in_unit_interval [of easing_fed_data "Settings ''moderate''"
        "extreme_m2_data None" "Inl ''timeout''"
        "Inr (Some 2300000)" "Inr (Some (16 / 100), Some (1 / 100))"
        "Inr (Some mock_hash_data)" 100000] a b c d e
    by simp
qed


section \<open>Scenario 2: the extreme-expansion override\<close>

lemma extreme_m2_data_level: "growth_level (extreme_m2_data a) = Some ''extreme_expansion''"
  by (simp add: extreme_m2_data_def)

lemma extreme_m2_combined:
  "combined_score (m2_calculate_signal_strength S (extreme_m2_data None) (miner_with_score s)) =
     5 / 10 + min 1 (max 0 1) * 0 + s * (5 / 10)"
  by (simp add: m2_combined calculate_m2_score_def extreme_m2_data_def miner_with_score_def
      dict_get_def Let_def)

lemma extreme_m2_combined_decelerating:
  "combined_score (m2_calculate_signal_strength S (extreme_m2_data (Some (- 1)))
     (miner_with_score s)) = 4 / 10 + s * (5 / 10)"
  by (simp add: m2_combined calculate_m2_score_def extreme_m2_data_def miner_with_score_def
      dict_get_def Let_def)

text \<open>
  Claim C5: in Scenario 2, when the growth classification is \<open>extreme_expansion\<close> and the
  combined score is at least \<open>0.6\<close>, the buy signal is forced to true and the strength
  is the override tier, also below the threshold of \<open>0.75\<close>; with the same
  classification and a combined score below \<open>0.6\<close> the buy signal is false.
\<close>

theorem m2_extreme_override:
  assumes "growth_level m2 = Some ''extreme_expansion''"
  shows "(combined_score (m2_calculate_signal_strength (Settings p) m2 md) \<ge> 6 / 10 \<longrightarrow>
            buy_signal (m2_calculate_signal_strength (Settings p) m2 md) \<and>
            signal_strength (m2_calculate_signal_strength (Settings p) m2 md) =
              ''strong_m2_override'') \<and>
         (combined_score (m2_calculate_signal_strength (Settings p) m2 md) < 6 / 10 \<longrightarrow>
            \<not> buy_signal (m2_calculate_signal_strength (Settings p) m2 md))"
  using assms by (simp add: m2_calculate_signal_strength_def Let_def settings_simps)

text \<open>
  The two instances of the claim: a combined score of \<open>0.65\<close> under the threshold
  \<open>0.75\<close> gives a buy signal with the override tier, a combined score of \<open>0.55\<close> gives
  none.
\<close>

theorem m2_extreme_override_witness:
  "growth_level (extreme_m2_data None) = Some ''extreme_expansion'' \<and>
   combined_score (m2_calculate_signal_strength (Settings ''moderate'') (extreme_m2_data None)
      (miner_with_score (3 / 10))) = 65 / 100 \<and>
   threshold (m2_calculate_signal_strength (Settings ''moderate'') (extreme_m2_data None)
      (miner_with_score (3 / 10))) = 75 / 100 \<and>
   buy_signal (m2_calculate_signal_strength (Settings ''moderate'') (extreme_m2_data None)
      (miner_with_score (3 / 10))) \<and>
   signal_strength (m2_calculate_signal_strength (Settings ''moderate'') (extreme_m2_data None)
      (miner_with_score (3 / 10))) = ''strong_m2_override'' \<and>
   combined_score (m2_calculate_signal_strength (Settings ''moderate'')
      (extreme_m2_data (Some (- 1))) (miner_with_score (3 / 10))) = 55 / 100 \<and>
   \<not> buy_signal (m2_calculate_signal_strength (Settings ''moderate'')
      (extreme_m2_data (Some (- 1))) (miner_with_score (3 / 10)))"
proof -
  have t: "threshold (m2_calculate_signal_strength (Settings ''moderate'') (extreme_m2_data None)
      (miner_with_score (3 / 10))) = 75 / 100"
    by (simp add: m2_calculate_signal_strength_def Let_def settings_simps)
  show ?thesis
    using m2_extreme_override [OF extreme_m2_data_level [of None], of "''moderate''"
        "miner_with_score (3 / 10)"]
      m2_extreme_override [OF extreme_m2_data_level [of "Some (- 1)"], of "''moderate''"
        "miner_with_score (3 / 10)"]
      extreme_m2_data_level [of None] t
    by (simp add: extreme_m2_combined extreme_m2_combined_decelerating)
qed

lemma strength_tier_high:
  "6 / 10 \<le> c \<Longrightarrow> strength_tier c = (if c \<ge> 8 / 10 then ''very_strong'' else ''strong'')"
  by (simp add: strength_tier_def)

text \<open>
  Claim C10: in Scenario 2, when the growth classification is \<open>extreme_expansion\<close> and
  the combined score is at least \<open>0.6\<close>, the strength is \<open>strong_m2_override\<close> whatever
  the score: it takes the place of \<open>very_strong\<close> from \<open>0.8\<close> on and of \<open>strong\<close> below,
  which is the tier the same readings get under any other growth classification.
\<close>

theorem m2_override_displaces_tier:
  assumes "growth_level m2 = Some ''extreme_expansion''"
    and "combined_score (m2_calculate_signal_strength S m2 md) \<ge> 6 / 10"
  shows "signal_strength (m2_calculate_signal_strength S m2 md) = ''strong_m2_override'' \<and>
         (combined_score (m2_calculate_signal_strength S m2 md) \<ge> 8 / 10 \<longrightarrow>
            strength_tier (combined_score (m2_calculate_signal_strength S m2 md)) =
              ''very_strong'') \<and>
         (combined_score (m2_calculate_signal_strength S m2 md) < 8 / 10 \<longrightarrow>
            strength_tier (combined_score (m2_calculate_signal_strength S m2 md)) = ''strong'') \<and>
         (\<forall>level. level \<noteq> Some ''extreme_expansion'' \<longrightarrow>
            signal_strength (m2_calculate_signal_strength S (m2\<lparr>growth_level := level\<rparr>) md) =
              strength_tier (combined_score (m2_calculate_signal_strength S m2 md)))"
proof -
  have 1: "signal_strength (m2_calculate_signal_strength S m2 md) = ''strong_m2_override''"
    using assms by (simp add: m2_calculate_signal_strength_def Let_def)
  have 2: "signal_strength (m2_calculate_signal_strength S (m2\<lparr>growth_level := level\<rparr>) md) =
              strength_tier (combined_score (m2_calculate_signal_strength S m2 md))"
    if "level \<noteq> Some ''extreme_expansion''" for level
    using that
    by (simp add: m2_calculate_signal_strength_def Let_def calculate_m2_score_def
        split: option.splits)
  from 1 2 strength_tier_high [OF assms(2)] show ?thesis by simp
qed

text \<open>
  Instances at a combined score of \<open>1.0\<close> (at or above \<open>0.8\<close> and the threshold) and of
  \<open>0.75\<close> (at the threshold): the override tier stands where \<open>very_strong\<close> and
  \<open>strong\<close> would.
\<close>

theorem m2_override_displaces_tier_witness:
  "combined_score (m2_calculate_signal_strength (Settings ''moderate'') (extreme_m2_data None)
      (miner_with_score 1)) = 1 \<and>
   signal_strength (m2_calculate_signal_strength (Settings ''moderate'') (extreme_m2_data None)
      (miner_with_score 1)) = ''strong_m2_override'' \<and>
   strength_tier (combined_score (m2_calculate_signal_strength (Settings ''moderate'')
      (extreme_m2_data None) (miner_with_score 1))) = ''very_strong'' \<and>
   combined_score (m2_calculate_signal_strength (Settings ''moderate'') (extreme_m2_data None)
      (miner_with_score (1 / 2))) = 75 / 100 \<and>
   signal_strength (m2_calculate_signal_strength (Settings ''moderate'') (extreme_m2_data None)
      (miner_with_score (1 / 2))) = ''strong_m2_override'' \<and>
   strength_tier (combined_score (m2_calculate_signal_strength (Settings ''moderate'')
      (extreme_m2_data None) (miner_with_score (1 / 2)))) = ''strong''"
proof -
  have a: "combined_score (m2_calculate_signal_strength (Settings ''moderate'')
      (extreme_m2_data None) (miner_with_score 1)) = 1"
    by (simp add: extreme_m2_combined)
  have b: "combined_score (m2_calculate_signal_strength (Settings ''moderate'')
      (extreme_m2_data None) (miner_with_score (1 / 2))) = 75 / 100"
    by (simp add: extreme_m2_combined)
  have a': "6 / 10 \<le> combined_score (m2_calculate_signal_strength (Settings ''moderate'')
      (extreme_m2_data None) (miner_with_score 1))"
    by (simp add: a)
  have b': "6 / 10 \<le> combined_score (m2_calculate_signal_strength (Settings ''moderate'')
      (extreme_m2_data None) (miner_with_score (1 / 2)))"
    by (simp add: b)
  show ?thesis
    using m2_override_displaces_tier [OF extreme_m2_data_level a']
      m2_override_displaces_tier [OF extreme_m2_data_level b']
    by (simp add: a b)
qed


section \<open>Scenario 1: the rate score\<close>

text \<open>
  Claim C6: when the policy-rate reading of a Scenario 1 snapshot is absent, the rate
  sub-score is \<open>0\<close> whatever the other entries are, the combined score is \<open>0.4\<close> times
  the reserve sub-score, hence at most \<open>0.4\<close> for any reserve reading, and with the
  configured threshold of \<open>0.70\<close> the buy signal is false.
\<close>

theorem fed_rate_absent:
  assumes "fed_funds_rate fd = None"
  shows "calculate_fed_score S fd = 0 \<and>
         combined_score (fed_calculate_signal_strength S fd rd) =
           (4 / 10) * dict_get (reserve_score rd) 0 \<and>
         combined_score (fed_calculate_signal_strength (Settings p) fd
           (get_exchange_reserves (Settings p) rf)) \<le> 4 / 10 \<and>
         \<not> buy_signal (fed_calculate_signal_strength (Settings p) fd
           (get_exchange_reserves (Settings p) rf))"
proof -
  have z: "calculate_fed_score S' fd = 0" for S'
    using assms by (simp add: calculate_fed_score_def)
  have c: "combined_score (fed_calculate_signal_strength S' fd rd') =
           (4 / 10) * dict_get (reserve_score rd') 0" for S' rd'
    by (simp add: fed_combined z)
  have le: "combined_score (fed_calculate_signal_strength (Settings p) fd
           (get_exchange_reserves (Settings p) rf)) \<le> 4 / 10"
    using reserve_score_range [of "Settings p" rf] by (simp add: c)
  have "\<not> buy_signal (fed_calculate_signal_strength (Settings p) fd
           (get_exchange_reserves (Settings p) rf))"
    using reserve_score_range [of "Settings p" rf]
    by (simp add: fed_calculate_signal_strength_def Let_def z settings_simps)
  with z c le show ?thesis by blast
qed

text \<open>
  An instance: the FRED request fails, the reserves are at \<open>2.3M\<close> (the best reserve
  score, \<open>1.0\<close>); the combined score is \<open>0.4\<close> and there is no buy signal.
\<close>

theorem fed_rate_absent_witness:
  "fed_funds_rate (get_fed_data (Inl ''timeout'')) = None \<and>
   calculate_fed_score (Settings ''moderate'') (get_fed_data (Inl ''timeout'')) = 0 \<and>
   combined_score (fed_calculate_signal_strength (Settings ''moderate'')
     (get_fed_data (Inl ''timeout''))
     (get_exchange_reserves (Settings ''moderate'') (Inr (Some 2300000)))) = 4 / 10 \<and>
   \<not> buy_signal (fed_calculate_signal_strength (Settings ''moderate'')
     (get_fed_data (Inl ''timeout''))
     (get_exchange_reserves (Settings ''moderate'') (Inr (Some 2300000))))"
proof -
  have h: "fed_funds_rate (get_fed_data (Inl ''timeout'')) = None"
    by (simp add: get_fed_data_def)
  have r: "dict_get (reserve_score (get_exchange_reserves (Settings ''moderate'')
     (Inr (Some 2300000)))) 0 = 1"
    by (simp add: get_exchange_reserves_def classify_reserves_def settings_simps dict_get_def)
  show ?thesis
    using h fed_rate_absent [OF h, of "Settings ''moderate''"
        "get_exchange_reserves (Settings ''moderate'') (Inr (Some 2300000))" "''moderate''"
        "Inr (Some 2300000)"]
    by (simp add: r)
qed

text \<open>
  Claim C8: in Scenario 1 the rate sub-score is the base score times a directional
  multiplier, clamped to at most \<open>1.0\<close>, and only then weighted by \<open>0.6\<close>.  The
  multiplier is \<open>1.5 + min(0.5, magnitude / 2.0)\<close> for a detected pivot with direction
  \<open>cutting\<close> (easing), \<open>0.3\<close> for a detected pivot with direction \<open>hiking\<close>
  (tightening), \<open>1.2\<close> for direction \<open>cutting\<close> without a detected pivot, and \<open>1.0\<close>
  otherwise.
\<close>

theorem directional_multiplier_cases:
  assumes "fed_funds_rate fd = Some rate"
  shows "(dict_get (pivot_detected fd) False \<and>
          dict_get (pivot_direction fd) ''neutral'' = ''cutting'' \<longrightarrow>
            calculate_fed_score S fd =
              min 1 (fed_base_score (FED_RATE_THRESHOLDS S) rate *
                     (15 / 10 + min (5 / 10) (dict_get (pivot_magnitude fd) 0 / 2)))) \<and>
         (dict_get (pivot_detected fd) False \<and>
          dict_get (pivot_direction fd) ''neutral'' = ''hiking'' \<longrightarrow>
            calculate_fed_score S fd =
              min 1 (fed_base_score (FED_RATE_THRESHOLDS S) rate * (3 / 10))) \<and>
         (\<not> dict_get (pivot_detected fd) False \<and>
          dict_get (pivot_direction fd) ''neutral'' = ''cutting'' \<longrightarrow>
            calculate_fed_score S fd =
              min 1 (fed_base_score (FED_RATE_THRESHOLDS S) rate * (12 / 10))) \<and>
         (dict_get (pivot_direction fd) ''neutral'' \<noteq> ''cutting'' \<and>
          \<not> (dict_get (pivot_detected fd) False \<and>
             dict_get (pivot_direction fd) ''neutral'' = ''hiking'') \<longrightarrow>
            calculate_fed_score S fd =
              min 1 (fed_base_score (FED_RATE_THRESHOLDS S) rate * 1)) \<and>
         calculate_fed_score S fd \<le> 1 \<and>
         combined_score (fed_calculate_signal_strength S fd rd) =
           calculate_fed_score S fd * (6 / 10) + dict_get (reserve_score rd) 0 * (4 / 10)"
  using assms
  by (auto simp: calculate_fed_score_def Let_def direction_multiplier_def fed_combined)

text \<open>
  An instance where the order of clamping and weighting shows: rate \<open>0.5\<close> (base score
  \<open>0.8\<close>), detected pivot, direction \<open>cutting\<close>, magnitude \<open>1.0\<close> (multiplier \<open>2.0\<close>), no
  reserve reading.  The product \<open>1.6\<close> is clamped to \<open>1.0\<close> and the combined score is
  \<open>0.6\<close>; clamping after the weighting would have given \<open>0.96\<close>.
\<close>

theorem directional_multiplier_cases_witness:
  "fed_funds_rate easing_fed_data = Some (1 / 2) \<and>
   fed_base_score (FED_RATE_THRESHOLDS (Settings ''moderate'')) (1 / 2) *
     (15 / 10 + min (5 / 10) (dict_get (pivot_magnitude easing_fed_data) 0 / 2)) = 16 / 10 \<and>
   calculate_fed_score (Settings ''moderate'') easing_fed_data = 1 \<and>
   combined_score (fed_calculate_signal_strength (Settings ''moderate'') easing_fed_data
     (get_exchange_reserves (Settings ''moderate'') (Inr None))) = 6 / 10 \<and>
   min 1 (16 / 10 * (6 / 10) + 0 * (4 / 10)) = (96 / 100 :: real)"
proof -
  have h: "fed_funds_rate easing_fed_data = Some (1 / 2)"
    by (simp add: easing_fed_data_def)
  have d: "dict_get (pivot_detected easing_fed_data) False"
    "dict_get (pivot_direction easing_fed_data) ''neutral'' = ''cutting''"
    "dict_get (pivot_magnitude easing_fed_data) 0 = 1"
    by (simp_all add: easing_fed_data_def dict_get_def)
  have b: "fed_base_score (FED_RATE_THRESHOLDS (Settings ''moderate'')) (1 / 2) = 8 / 10"
    by (simp add: fed_base_score_def settings_simps)
  have r: "dict_get (reserve_score (get_exchange_reserves (Settings ''moderate'') (Inr None))) 0 = 0"
    by (simp add: get_exchange_reserves_def dict_get_def)
  show ?thesis
    using h directional_multiplier_cases [OF h, of "Settings ''moderate''"
        "get_exchange_reserves (Settings ''moderate'') (Inr None)"]
    by (simp add: d b r)
qed

section \<open>Trade plans\<close>

text \<open>
  Claim C7: a trade plan generated from signals with a buy signal, in either scenario,
  has an entry schedule whose fractions sum to \<open>1\<close> (exactly, over the reals), each
  tranche value is the position value times the fraction of the tranche, and the
  position size is at most the \<open>max\<close> of the active risk profile.
\<close>

theorem trade_plan_invariants:
  assumes "buy_signal sd"
  shows "(\<exists>d. details (fed_generate_trade_plan S sd pv) = Some d \<and>
            sum_list (map percentage (entry_plan d)) = 1 \<and>
            (\<forall>t \<in> set (entry_plan d). tranche_value t = position_value d * percentage t)) \<and>
         position_size (fed_generate_trade_plan S sd pv) \<le> max_size (get_position_limits S None) \<and>
         (\<exists>d. details (m2_generate_trade_plan S sd pv) = Some d \<and>
            sum_list (map percentage (entry_plan d)) = 1 \<and>
            (\<forall>t \<in> set (entry_plan d). tranche_value t = position_value d * percentage t)) \<and>
         position_size (m2_generate_trade_plan S sd pv) \<le> max_size (get_position_limits S None)"
proof -
  have a: "\<exists>d. details (fed_generate_trade_plan S sd pv) = Some d \<and>
            sum_list (map percentage (entry_plan d)) = 1 \<and>
            (\<forall>t \<in> set (entry_plan d). tranche_value t = position_value d * percentage t)"
    using assms by (simp add: fed_generate_trade_plan_def Let_def)
  have b: "position_size (fed_generate_trade_plan S sd pv) \<le> max_size (get_position_limits S None)"
    using assms by (simp add: fed_generate_trade_plan_def Let_def)
  have c: "\<exists>d. details (m2_generate_trade_plan S sd pv) = Some d \<and>
            sum_list (map percentage (entry_plan d)) = 1 \<and>
            (\<forall>t \<in> set (entry_plan d). tranche_value t = position_value d * percentage t)"
    using assms by (simp add: m2_generate_trade_plan_def Let_def)
  have d: "position_size (m2_generate_trade_plan S sd pv) \<le> max_size (get_position_limits S None)"
    using assms by (simp add: m2_generate_trade_plan_def Let_def)
  from a b c d show ?thesis by blast
qed

text \<open>
  An instance: the easing pivot with reserves at \<open>2.3M\<close> gives a combined score of
  \<open>1.0\<close> and a buy signal; under the moderate profile the position size is the
  profile's maximum, \<open>0.15\<close>, and the position value on a portfolio of \<open>100000\<close> is
  \<open>15000\<close>.
\<close>

theorem trade_plan_invariants_witness:
  "buy_signal (fed_calculate_signal_strength (Settings ''moderate'') easing_fed_data
     (get_exchange_reserves (Settings ''moderate'') (Inr (Some 2300000)))) \<and>
   position_size (fed_generate_trade_plan (Settings ''moderate'')
     (fed_calculate_signal_strength (Settings ''moderate'') easing_fed_data
        (get_exchange_reserves (Settings ''moderate'') (Inr (Some 2300000)))) 100000) = 15 / 100 \<and>
   max_size (get_position_limits (Settings ''moderate'') None) = 15 / 100 \<and>
   (\<exists>d. details (fed_generate_trade_plan (Settings ''moderate'')
           (fed_calculate_signal_strength (Settings ''moderate'') easing_fed_data
              (get_exchange_reserves (Settings ''moderate'') (Inr (Some 2300000)))) 100000) = Some d \<and>
        sum_list (map percentage (entry_plan d)) = 1 \<and>
        (\<forall>t \<in> set (entry_plan d). tranche_value t = position_value d * percentage t))"
proof -
  define sd where "sd = fed_calculate_signal_strength (Settings ''moderate'') easing_fed_data
     (get_exchange_reserves (Settings ''moderate'') (Inr (Some 2300000)))"
  have r: "dict_get (reserve_score (get_exchange_reserves (Settings ''moderate'')
     (Inr (Some 2300000)))) 0 = 1"
    by (simp add: get_exchange_reserves_def classify_reserves_def settings_simps dict_get_def)
  have f: "calculate_fed_score (Settings ''moderate'') easing_fed_data = 1"
    by (simp add: calculate_fed_score_def easing_fed_data_def fed_base_score_def
        direction_multiplier_def settings_simps dict_get_def Let_def)
  have sd: "sd = \<lparr> sub_scores = [(''fed_score'', 1), (''reserve_score'', 1)],
      combined_score = 1, buy_signal = True, signal_strength = ''very_strong'',
      threshold = 7 / 10 \<rparr>"
    by (simp add: sd_def fed_calculate_signal_strength_def Let_def r f settings_simps
        strength_tier_def)
  have b: "buy_signal sd" by (simp add: sd)
  have s: "position_size (fed_generate_trade_plan (Settings ''moderate'') sd 100000) = 15 / 100"
    by (simp add: sd fed_generate_trade_plan_def moderate_limits Let_def)
  show ?thesis
    using b s trade_plan_invariants [OF b, of "Settings ''moderate''" 100000]
    unfolding sd_def [symmetric]
    by (simp add: moderate_limits)
qed


section \<open>The orchestrator: strongest signal\<close>

lemma strongest_loop_None:
  "strongest_loop s m rs = None \<longleftrightarrow>
     s = None \<and> (\<forall>r \<in> snd ` set rs. has_error r \<or> result_combined_score r \<le> m)"
  by (induction s m rs rule: strongest_loop.induct) (auto simp: not_less)

text \<open>
  What the loop returns: the value it started with when no entry beats the running
  maximum, and otherwise an error-free entry that beats every error-free entry before
  it and is not beaten by any after it.
\<close>

lemma strongest_loop_Some:
  assumes "strongest_loop s m rs = Some x"
  shows "(s = Some x \<and> (\<forall>r \<in> snd ` set rs. has_error r \<or> result_combined_score r \<le> m)) \<or>
         (\<exists>pre n post. rs = pre @ (n, x) # post \<and> \<not> has_error x \<and>
            m < result_combined_score x \<and>
            (\<forall>r \<in> snd ` set pre. has_error r \<or>
               result_combined_score r < result_combined_score x) \<and>
            (\<forall>r \<in> snd ` set post. has_error r \<or>
               result_combined_score r \<le> result_combined_score x))"
  using assms
proof (induction s m rs rule: strongest_loop.induct)
  case (1 strongest max_score)
  then show ?case by simp
next
  case (2 strongest max_score name r rest)
  show ?case
  proof (cases "\<not> has_error r \<and> result_combined_score r > max_score")
    case True
    with 2 have run: "strongest_loop (Some r) (result_combined_score r) rest = Some x"
      by simp
    from "2.IH"(1) [OF True run]
    consider (here) "r = x"
        "\<forall>q \<in> snd ` set rest. has_error q \<or> result_combined_score q \<le> result_combined_score r"
      | (later) pre n post where "rest = pre @ (n, x) # post" "\<not> has_error x"
          "result_combined_score r < result_combined_score x"
          "\<forall>q \<in> snd ` set pre. has_error q \<or> result_combined_score q < result_combined_score x"
          "\<forall>q \<in> snd ` set post. has_error q \<or> result_combined_score q \<le> result_combined_score x"
      by auto
    then show ?thesis
    proof cases
      case here
      with True have "(name, r) # rest = [] @ (name, x) # rest \<and> \<not> has_error x \<and>
          max_score < result_combined_score x \<and>
          (\<forall>q \<in> snd ` set []. has_error q \<or>
             result_combined_score q < result_combined_score x) \<and>
          (\<forall>q \<in> snd ` set rest. has_error q \<or>
             result_combined_score q \<le> result_combined_score x)"
        by simp
      then show ?thesis by blast
    next
      case later
      with True have "(name, r) # rest = ((name, r) # pre) @ (n, x) # post \<and> \<not> has_error x \<and>
          max_score < result_combined_score x \<and>
          (\<forall>q \<in> snd ` set ((name, r) # pre). has_error q \<or>
             result_combined_score q < result_combined_score x) \<and>
          (\<forall>q \<in> snd ` set post. has_error q \<or>
             result_combined_score q \<le> result_combined_score x)"
        by auto
      then show ?thesis by blast
    qed
  next
    case False
    with 2 have run: "strongest_loop strongest max_score rest = Some x" by auto
    from "2.IH"(2) [OF False run]
    consider (kept) "strongest = Some x"
        "\<forall>q \<in> snd ` set rest. has_error q \<or> result_combined_score q \<le> max_score"
      | (later) pre n post where "rest = pre @ (n, x) # post" "\<not> has_error x"
          "max_score < result_combined_score x"
          "\<forall>q \<in> snd ` set pre. has_error q \<or> result_combined_score q < result_combined_score x"
          "\<forall>q \<in> snd ` set post. has_error q \<or> result_combined_score q \<le> result_combined_score x"
      by auto
    then show ?thesis
    proof cases
      case kept
      with False show ?thesis by (auto simp: not_less)
    next
      case later
      with False have "(name, r) # rest = ((name, r) # pre) @ (n, x) # post \<and> \<not> has_error x \<and>
          max_score < result_combined_score x \<and>
          (\<forall>q \<in> snd ` set ((name, r) # pre). has_error q \<or>
             result_combined_score q < result_combined_score x) \<and>
          (\<forall>q \<in> snd ` set post. has_error q \<or>
             result_combined_score q \<le> result_combined_score x)"
        by (auto simp: not_less)
      then show ?thesis by blast
    qed
  qed
qed

lemma strongest_of_sentinel:
  "strongest_of rs = no_valid_signals \<longleftrightarrow>
     (\<forall>r \<in> snd ` set rs. has_error r \<or> result_combined_score r \<le> 0)"
proof (cases "strongest_loop None 0 rs")
  case None
  then have "strongest_of rs = no_valid_signals" by (simp add: strongest_of_def)
  moreover from None have "\<forall>r \<in> snd ` set rs. has_error r \<or> result_combined_score r \<le> 0"
    using strongest_loop_None [of None 0 rs] by simp
  ultimately show ?thesis by simp
next
  case (Some x)
  from strongest_loop_Some [OF Some]
  obtain pre n post where x: "rs = pre @ (n, x) # post" "\<not> has_error x"
      "0 < result_combined_score x"
    by auto
  then have "x \<in> snd ` set rs" by force
  with x have "\<not> (\<forall>r \<in> snd ` set rs. has_error r \<or> result_combined_score r \<le> 0)"
    by (auto simp: not_le)
  moreover from x have "x \<noteq> no_valid_signals" by (auto simp: no_valid_signals_def)
  moreover from Some have "strongest_of rs = x" by (simp add: strongest_of_def)
  ultimately show ?thesis by simp
qed

lemma strongest_of_selected:
  assumes "strongest_of rs \<noteq> no_valid_signals"
  shows "\<exists>pre n post. rs = pre @ (n, strongest_of rs) # post \<and>
            \<not> has_error (strongest_of rs) \<and> 0 < result_combined_score (strongest_of rs) \<and>
            (\<forall>r \<in> snd ` set pre. has_error r \<or>
               result_combined_score r < result_combined_score (strongest_of rs)) \<and>
            (\<forall>r \<in> snd ` set post. has_error r \<or>
               result_combined_score r \<le> result_combined_score (strongest_of rs))"
proof (cases "strongest_loop None 0 rs")
  case None
  with assms show ?thesis by (simp add: strongest_of_def)
next
  case (Some x)
  then have "strongest_of rs = x" by (simp add: strongest_of_def)
  with strongest_loop_Some [OF Some] show ?thesis by simp
qed

lemma outage_signals:
  "map (has_error \<circ> snd) (get_all_signals outage_scenarios pv) = [False, False]"
  "map (result_combined_score \<circ> snd) (get_all_signals outage_scenarios pv) = [0, 0]"
  by (simp_all add: get_all_signals_def signals_entry_def run_analysis_def outage_scenarios_def
      fed_analyze_def m2_analyze_def Let_def fed_combined m2_combined
      calculate_fed_score_def get_fed_data_def get_exchange_reserves_def
      calculate_m2_score_def get_m2_data_def get_hash_ribbon_data_def hash_unavailable_def
      dict_get_def)

text \<open>
  Claim C2, as stated: the sentinel is returned if and only if every scenario produced
  an error result.  When every provider returns nothing, both models still complete
  (neither entry has an error field), both combined scores are \<open>0.0\<close>, and the
  sentinel is returned: the loop starts from a maximum of \<open>0.0\<close> and compares with
  \<open>>\<close>.
\<close>

theorem strongest_signal_zero_scores_counterexample:
  "get_strongest_signal outage_scenarios 100000 = no_valid_signals \<and>
   map (has_error \<circ> snd) (get_all_signals outage_scenarios 100000) = [False, False] \<and>
   map (result_combined_score \<circ> snd) (get_all_signals outage_scenarios 100000) = [0, 0]"
proof -
  have e: "map (has_error \<circ> snd) (get_all_signals outage_scenarios 100000) = [False, False]"
    and c: "map (result_combined_score \<circ> snd) (get_all_signals outage_scenarios 100000) = [0, 0]"
    by (rule outage_signals)+
  have "\<forall>r \<in> set (map snd (get_all_signals outage_scenarios 100000)).
          has_error r \<or> result_combined_score r \<le> 0"
  proof
    fix r assume "r \<in> set (map snd (get_all_signals outage_scenarios 100000))"
    then have "result_combined_score r \<in>
        set (map (result_combined_score \<circ> snd) (get_all_signals outage_scenarios 100000))"
      by auto
    then show "has_error r \<or> result_combined_score r \<le> 0" by (simp add: c)
  qed
  then have "get_strongest_signal outage_scenarios 100000 = no_valid_signals"
    by (simp add: get_strongest_signal_def strongest_of_sentinel)
  with e c show ?thesis by simp
qed

text \<open>
  Claim C2, amended: \<open>get_strongest_signal\<close> returns the sentinel (no buy signal, an
  explanatory error field) if and only if no error-free result has a positive combined
  score, which includes the case that every scenario produced an error result.
  Otherwise it returns an error-free result with a positive combined score that is
  maximal among the error-free results, ties resolved in favour of the scenario
  registered first: every error-free result before it scores strictly less, every one
  after it at most as much.  It returns a result for every input.
\<close>

theorem strongest_signal_selection:
  "(get_strongest_signal scenarios pv = no_valid_signals \<longleftrightarrow>
      (\<forall>r \<in> snd ` set (get_all_signals scenarios pv).
          has_error r \<or> result_combined_score r \<le> 0)) \<and>
   (get_strongest_signal scenarios pv \<noteq> no_valid_signals \<longrightarrow>
      (\<exists>pre n post.
          get_all_signals scenarios pv = pre @ (n, get_strongest_signal scenarios pv) # post \<and>
          \<not> has_error (get_strongest_signal scenarios pv) \<and>
          0 < result_combined_score (get_strongest_signal scenarios pv) \<and>
          (\<forall>r \<in> snd ` set pre. has_error r \<or>
             result_combined_score r < result_combined_score (get_strongest_signal scenarios pv)) \<and>
          (\<forall>r \<in> snd ` set post. has_error r \<or>
             result_combined_score r \<le> result_combined_score (get_strongest_signal scenarios pv))))"
  unfolding get_strongest_signal_def
  using strongest_of_sentinel [of "get_all_signals scenarios pv"]
    strongest_of_selected [of "get_all_signals scenarios pv"]
  by blast

lemma mock_signals:
  "map (has_error \<circ> snd) (get_all_signals mock_scenarios pv) = [False, False]"
  "map (result_combined_score \<circ> snd) (get_all_signals mock_scenarios pv) = [28 / 100, 2 / 10]"
  by (simp_all add: get_all_signals_def signals_entry_def run_analysis_def mock_scenarios_def
      fed_analyze_def m2_analyze_def Let_def fed_combined m2_combined
      calculate_fed_score_def get_fed_data_def get_exchange_reserves_def
      classify_reserves_def settings_simps
      calculate_m2_score_def get_m2_data_def get_hash_ribbon_data_def mock_hash_data_def
      empty_dict_def score_hash_ribbon_def dict_get_def)

text \<open>
  An instance: on the mock on-chain data without FRED data the scores are \<open>0.28\<close> and
  \<open>0.2\<close>; the result is not the sentinel, it is an entry of \<open>get_all_signals\<close> and its
  score is positive.
\<close>

theorem strongest_signal_selection_witness:
  "get_strongest_signal mock_scenarios 100000 \<noteq> no_valid_signals \<and>
   (\<exists>pre n post.
      get_all_signals mock_scenarios 100000 =
        pre @ (n, get_strongest_signal mock_scenarios 100000) # post \<and>
      \<not> has_error (get_strongest_signal mock_scenarios 100000) \<and>
      0 < result_combined_score (get_strongest_signal mock_scenarios 100000) \<and>
      (\<forall>r \<in> snd ` set pre. has_error r \<or>
         result_combined_score r < result_combined_score (get_strongest_signal mock_scenarios 100000)) \<and>
      (\<forall>r \<in> snd ` set post. has_error r \<or>
         result_combined_score r \<le> result_combined_score (get_strongest_signal mock_scenarios 100000)))"
proof -
  obtain a b where ab: "get_all_signals mock_scenarios 100000 = [a, b]"
    using mock_signals(1) [of 100000] by (auto simp: map_eq_Cons_conv)
  with mock_signals [of 100000]
  have "\<not> has_error (snd a)" "result_combined_score (snd a) = 28 / 100" by simp_all
  then have "\<not> (\<forall>r \<in> snd ` set (get_all_signals mock_scenarios 100000).
      has_error r \<or> result_combined_score r \<le> 0)"
    by (auto simp: ab)
  then have ne: "get_strongest_signal mock_scenarios 100000 \<noteq> no_valid_signals"
    using strongest_signal_selection [of mock_scenarios 100000] by blast
  with strongest_signal_selection [of mock_scenarios 100000] show ?thesis by blast
qed


section \<open>The orchestrator: all signals\<close>

lemma map_of_without:
  "k \<noteq> n \<Longrightarrow> map_of (filter (\<lambda>entry. fst entry \<noteq> n) scs) k = map_of scs k"
  by (induction scs) auto

lemma signals_entry_without:
  "k \<noteq> n \<Longrightarrow>
   signals_entry (filter (\<lambda>entry. fst entry \<noteq> n) scs) pv k = signals_entry scs pv k"
  by (simp add: signals_entry_def run_analysis_def map_of_without)

lemma signals_entry_key: "fst (signals_entry scs pv k) = k"
  by (simp add: signals_entry_def split: sum.splits)

lemma get_all_signals_without_gen:
  "map (signals_entry (filter (\<lambda>entry. fst entry \<noteq> n) scs) pv)
       (map fst (filter (\<lambda>entry. fst entry \<noteq> n) xs)) =
   filter (\<lambda>entry. fst entry \<noteq> n) (map (signals_entry scs pv) (map fst xs))"
proof (induction xs)
  case Nil
  show ?case by simp
next
  case (Cons x xs)
  show ?case
  proof (cases "fst x = n")
    case True
    with Cons show ?thesis by (simp add: signals_entry_key)
  next
    case False
    with Cons show ?thesis by (simp add: signals_entry_key signals_entry_without)
  qed
qed

lemma get_all_signals_without:
  "get_all_signals (filter (\<lambda>entry. fst entry \<noteq> n) scs) pv =
   filter (\<lambda>entry. fst entry \<noteq> n) (get_all_signals scs pv)"
  unfolding get_all_signals_def by (rule get_all_signals_without_gen)

lemma get_all_signals_keys: "map fst (get_all_signals scs pv) = map fst scs"
  by (simp add: get_all_signals_def signals_entry_key comp_def)

lemma map_of_keyed:
  "k \<in> set ks \<Longrightarrow> (\<And>j. fst (f j) = j) \<Longrightarrow> map_of (map f ks) k = Some (snd (f k))"
proof (induction ks)
  case Nil
  then show ?case by simp
next
  case (Cons a ks)
  have "f a = (a, snd (f a))" using Cons.prems(2) [of a] by (cases "f a") simp
  with Cons show ?case by (cases "a = k") auto
qed

text \<open>The entry of a registered scenario, by what its \<open>analyze\<close> does.\<close>

lemma get_all_signals_entry:
  assumes "distinct (map fst scs)" "(n, model) \<in> set scs"
  shows "map_of (get_all_signals scs pv) n =
           Some (case model pv of
                   Inl e \<Rightarrow> Failed e False 0
                 | Inr r \<Rightarrow> Completed (r\<lparr> scenario := n, portfolio_value := Some pv \<rparr>))"
proof -
  have m: "map_of scs n = Some model" using assms by simp
  have "n \<in> set (map fst scs)" using assms(2) by force
  then have "map_of (get_all_signals scs pv) n = Some (snd (signals_entry scs pv n))"
    unfolding get_all_signals_def by (rule map_of_keyed) (rule signals_entry_key)
  then show ?thesis
    using m by (simp add: signals_entry_def run_analysis_def split: sum.splits)
qed

text \<open>
  Claim C9: \<open>get_all_signals\<close> returns an entry for every registered scenario, in
  registration order.  The entry of a scenario whose analysis raises is an error result
  with no buy signal and a combined score of \<open>0.0\<close>, and the entries of the other
  scenarios are what \<open>get_all_signals\<close> returns for the registry without the failing
  scenario.  The function returns for every registry and portfolio value.  The keys of
  the \<open>scenarios\<close> dictionary are distinct.
\<close>

theorem error_isolation:
  assumes "distinct (map fst scs)"
  shows "map fst (get_all_signals scs pv) = map fst scs \<and>
         (\<forall>n model e. (n, model) \<in> set scs \<and> model pv = Inl e \<longrightarrow>
            map_of (get_all_signals scs pv) n = Some (Failed e False 0) \<and>
            has_error (Failed e False 0) \<and>
            \<not> result_buy_signal (Failed e False 0) \<and>
            result_combined_score (Failed e False 0) = 0 \<and>
            get_all_signals (filter (\<lambda>entry. fst entry \<noteq> n) scs) pv =
              filter (\<lambda>entry. fst entry \<noteq> n) (get_all_signals scs pv))"
proof -
  have "map_of (get_all_signals scs pv) n = Some (Failed e False 0)"
    if "(n, model) \<in> set scs" "model pv = Inl e" for n model e
    using get_all_signals_entry [OF assms that(1), of pv] that(2) by simp
  then have "\<forall>n model e. (n, model) \<in> set scs \<and> model pv = Inl e \<longrightarrow>
      map_of (get_all_signals scs pv) n = Some (Failed e False 0)"
    by blast
  then show ?thesis
    by (simp add: get_all_signals_keys get_all_signals_without)
qed

text \<open>
  An instance: scenario 1 raises, scenario 2 runs on the mock data.  Both keys are
  present, the entry of scenario 1 is the error result, and the entry of scenario 2 is
  the one of a registry holding scenario 2 alone, with its combined score of \<open>0.2\<close>.
\<close>

theorem error_isolation_witness:
  "distinct (map fst half_failing_scenarios) \<and>
   map fst (get_all_signals half_failing_scenarios 100000) = [1, 2] \<and>
   map_of (get_all_signals half_failing_scenarios 100000) 1 =
     Some (Failed ''FRED unavailable'' False 0) \<and>
   get_all_signals (filter (\<lambda>entry. fst entry \<noteq> 1) half_failing_scenarios) 100000 =
     filter (\<lambda>entry. fst entry \<noteq> 1) (get_all_signals half_failing_scenarios 100000) \<and>
   filter (\<lambda>entry. fst entry \<noteq> 1) half_failing_scenarios = [half_failing_scenarios ! 1]"
proof -
  have d: "distinct (map fst half_failing_scenarios)"
    by (simp add: half_failing_scenarios_def)
  have m: "(1, failing_model ''FRED unavailable'') \<in> set half_failing_scenarios"
    "failing_model ''FRED unavailable'' 100000 = Inl ''FRED unavailable''"
    by (simp_all add: half_failing_scenarios_def failing_model_def)
  have k: "map fst half_failing_scenarios = [1, 2]"
    "filter (\<lambda>entry. fst entry \<noteq> 1) half_failing_scenarios = [half_failing_scenarios ! 1]"
    by (simp_all add: half_failing_scenarios_def)
  from error_isolation [OF d, of 100000] m
  have "map fst (get_all_signals half_failing_scenarios 100000) = map fst half_failing_scenarios"
    "map_of (get_all_signals half_failing_scenarios 100000) 1 =
       Some (Failed ''FRED unavailable'' False 0)"
    "get_all_signals (filter (\<lambda>entry. fst entry \<noteq> 1) half_failing_scenarios) 100000 =
       filter (\<lambda>entry. fst entry \<noteq> 1) (get_all_signals half_failing_scenarios 100000)"
    by blast+
  with d k show ?thesis by simp
qed

section \<open>Health aggregation\<close>

text \<open>
  The reduction inside each scenario model is the three-level one: healthy only if
  unanimous, error if any provider reports an error, degraded otherwise.
\<close>

lemma reduce_statuses_levels:
  "(reduce_statuses statuses = ''healthy'' \<longleftrightarrow> (\<forall>s \<in> set statuses. s = ''healthy'')) \<and>
   ((\<exists>s \<in> set statuses. s = ''error'') \<longrightarrow> reduce_statuses statuses = ''error'') \<and>
   (\<not> (\<forall>s \<in> set statuses. s = ''healthy'') \<and> \<not> (\<exists>s \<in> set statuses. s = ''error'') \<longrightarrow>
      reduce_statuses statuses = ''degraded'')"
  by (auto simp: reduce_statuses_def list_all_iff list_ex_iff)

lemma health_loop_healthy:
  "overall_status (health_loop h checks) = ''healthy'' \<longleftrightarrow>
     overall_status h = ''healthy'' \<and>
     (\<forall>c \<in> set checks. \<exists>m. snd c = Inr m \<and> status m = ''healthy'')"
  by (induction h checks rule: health_loop.induct) auto

text \<open>
  The part of the reduction the orchestrator does have: its overall status is healthy
  exactly when every scenario returned a health dictionary with status healthy.
\<close>

lemma health_check_healthy_iff:
  "overall_status (health_check checks) = ''healthy'' \<longleftrightarrow>
     (\<forall>c \<in> set checks. \<exists>m. snd c = Inr m \<and> status m = ''healthy'')"
  by (simp add: health_check_def health_loop_healthy)

text \<open>
  Claim C1: the orchestrator's overall status is \<open>error\<close> whenever a component reports
  \<open>error\<close>, and does not depend on the order of the components.  The code does neither.
  When both scenario models report \<open>error\<close> (their FRED provider reports it), the
  overall status is \<open>degraded\<close>.  When the health check of scenario 1 raises, so that
  its component has status \<open>error\<close>, and scenario 2 reports \<open>degraded\<close>, the overall
  status is \<open>degraded\<close>; with the same two components checked in the other order it is
  \<open>error\<close>.
\<close>

theorem health_check_error_not_dominant:
  "status (fed_health_check ''error'' ''healthy'' ''healthy'') = ''error'' \<and>
   status (m2_health_check ''error'' ''healthy'' ''healthy'') = ''error'' \<and>
   overall_status (health_check
     [(1, Inr (fed_health_check ''error'' ''healthy'' ''healthy'')),
      (2, Inr (m2_health_check ''error'' ''healthy'' ''healthy''))]) = ''degraded'' \<and>
   map (component_status \<circ> snd) (components (health_check
     [(1, Inl ''timeout''),
      (2, Inr (m2_health_check ''degraded'' ''healthy'' ''healthy''))])) =
     [''error'', ''degraded''] \<and>
   overall_status (health_check
     [(1, Inl ''timeout''),
      (2, Inr (m2_health_check ''degraded'' ''healthy'' ''healthy''))]) = ''degraded'' \<and>
   overall_status (health_check
     [(2, Inr (m2_health_check ''degraded'' ''healthy'' ''healthy'')),
      (1, Inl ''timeout'')]) = ''error''"
  by (simp add: health_check_def fed_health_check_def m2_health_check_def
      model_health_check_def reduce_statuses_def)


end
